theory Spec2Isabelle
  imports Complex_Main "HOL-Library.AList"
begin

section \<open>Data model\<close>

text \<open>
  The cube is an xarray dataset: named coordinate variables (which include the bounds
  variables) and named data variables, both in declaration order. A variable carries its
  dimension names, its shape, its element type and its values in row-major order.

  A number is the \<^typ>\<open>real\<close> it denotes. The arithmetic of numpy on float64 arrays
  rounds every result to the nearest double (section \<open>float64 arithmetic\<close>); infinities
  and not-a-number coordinates are outside the model, and so is the overflow of 64-bit
  integers. Integer and date/time arrays hold integer-valued reals. A data variable may
  store not-a-number, so its cells are of type \<open>cell\<close>.
\<close>

datatype dtype = DFloat | DInt | DDatetime

text \<open>Data variables of float and of integer element type are modelled.\<close>

datatype value_dtype = VFloat | VInt

datatype cell = NaN | Val real

record variable =
  var_dims :: "string list"
  var_shape :: "nat list"
  var_dtype :: dtype
  var_vals :: "real list"
  var_bounds_attr :: "string option"

record data_var =
  dv_dims :: "string list"
  dv_shape :: "nat list"
  dv_dtype :: value_dtype
  dv_data :: "cell list"

record dataset =
  ds_coords :: "(string \<times> variable) list"
  ds_data_vars :: "(string \<times> data_var) list"

text \<open>A one-dimensional numpy array as it is passed around: element type and values.\<close>

record array1 =
  arr_dtype :: dtype
  arr_vals :: "real list"

text \<open>
  Every \<open>raise\<close> of the source and every exception of numpy, pandas and Python that the
  modelled paths can reach is a value. The fields of an error are the values its message
  is formatted from.
\<close>

text \<open>The issues that \<open>verify_cube\<close> reports; the fields are what the message names.\<close>

datatype issue =
    MissingDimension string
  | DimensionSizeNotPositive string
  | MissingCoordVar string
  | CoordVarNotSingleDim string
  | CoordVarEmpty string
  | CoordVarOutOfRange string real real
  | TimeNotDatetime string
  | TimeNotIncreasing string
  | DataVarDims string "string list"
  | DataVarDimsDiffer "string list" string "string list" string

datatype error =
    KeyError string
  | IndexError
  | TypeError string
  | AssertionError
  | NumpyValueError string
  | PandasValueError string
  | CannotDetermineCellBoundaries string nat
  | MissingCoordinateVariable string
  | ColumnNotFound string
  | LengthMismatch nat string nat string
  | MissingDimensionInIndexes string
  | CubeDatasetIsEmpty
  | NotAValidCube "issue list"
  | TooFewDimensions string nat

definition size_of :: "variable \<Rightarrow> nat" where
  "size_of v = prod_list (var_shape v)"



section \<open>float64 arithmetic\<close>

text \<open>
  A finite double is a real number of the form \<open>m * 2^(e - 52)\<close> with an integer \<open>m\<close>
  of at most 53 bits and \<open>e \<ge> -1022\<close>. \<open>fl64 x\<close> is the double nearest to \<open>x\<close>, ties
  to the even mantissa, which is what every float64 operation of numpy and every cast to
  float64 returns for an exact result \<open>x\<close>. The exponent of \<open>x\<close> is found from the integer
  logarithm of its integer part (or of its reciprocal); below \<open>2^-1022\<close> the spacing of
  the doubles stays \<open>2^-1074\<close>. Results beyond the largest double are outside the model.
\<close>

definition pow2 :: "int \<Rightarrow> real" where
  "pow2 k = (if 0 \<le> k then 2 ^ nat k else 1 / 2 ^ nat (- k))"

function ilog2 :: "int \<Rightarrow> nat" where
  "ilog2 n = (if n < 2 then 0 else Suc (ilog2 (n div 2)))"
  by pat_completeness auto
termination
  by (relation "measure nat") auto

definition exponent :: "real \<Rightarrow> int" where
  "exponent y =
     (if 1 \<le> y then int (ilog2 \<lfloor>y\<rfloor>)
      else - int (Suc (ilog2 (\<lceil>1 / y\<rceil> - 1))))"

definition round_half_even :: "real \<Rightarrow> int" where
  "round_half_even m =
     (let f = \<lfloor>m\<rfloor>; d = m - of_int f
      in if d < 1 / 2 then f else if 1 / 2 < d then f + 1 else if even f then f else f + 1)"

definition fl64 :: "real \<Rightarrow> real" where
  "fl64 x =
     (if x = 0 then 0
      else let e = max (exponent \<bar>x\<bar>) (- 1022); ulp = pow2 (e - 52)
           in of_int (round_half_even (x / ulp)) * ulp)"

section \<open>numpy primitives\<close>

text \<open>\<open>astype(np.uint64)\<close> of a date/time array: the count of time units, modulo \<open>2^64\<close>.\<close>

definition astype_uint64 :: "real \<Rightarrow> real" where
  "astype_uint64 x = of_int (\<lfloor>x\<rfloor> mod 2 ^ 64)"

text \<open>
  Lines 455, 465 and 485: an array of date/time element type is reinterpreted as unsigned
  integers, any other array is used as it is.
\<close>

definition as_numbers :: "dtype \<Rightarrow> real list \<Rightarrow> real list" where
  "as_numbers dt vals = (if dt = DDatetime then map astype_uint64 vals else vals)"

text \<open>\<open>astype(np.int64)\<close> of a float array truncates toward zero.\<close>

definition astype_int64 :: "real \<Rightarrow> int" where
  "astype_int64 r = (if 0 \<le> r then \<lfloor>r\<rfloor> else - \<lfloor>- r\<rfloor>)"

text \<open>
  Subtraction and addition in the element type of the array: float64 results are rounded,
  unsigned 64-bit results (date/time arrays after their cast) wrap, int64 results are exact.
\<close>

definition np_sub :: "dtype \<Rightarrow> real \<Rightarrow> real \<Rightarrow> real" where
  "np_sub dt a b =
     (case dt of
        DFloat \<Rightarrow> fl64 (a - b)
      | DInt \<Rightarrow> a - b
      | DDatetime \<Rightarrow> of_int ((\<lfloor>a\<rfloor> - \<lfloor>b\<rfloor>) mod 2 ^ 64))"

definition np_add :: "dtype \<Rightarrow> real \<Rightarrow> real \<Rightarrow> real" where
  "np_add dt a b =
     (case dt of
        DFloat \<Rightarrow> fl64 (a + b)
      | DInt \<Rightarrow> a + b
      | DDatetime \<Rightarrow> of_int ((\<lfloor>a\<rfloor> + \<lfloor>b\<rfloor>) mod 2 ^ 64))"

text \<open>\<open>np.diff\<close> of a one-dimensional array: the differences of neighbours.\<close>

fun np_diff :: "dtype \<Rightarrow> real list \<Rightarrow> real list" where
  "np_diff dt (a # b # xs) = np_sub dt b a # np_diff dt (b # xs)"
| "np_diff dt xs = []"

text \<open>
  \<open>np.linspace(0.0, n1, n2, dtype=np.float64)\<close> with \<open>n2 = n1 + 1\<close>: the step is 1 and
  the entries are the doubles of \<open>0, 1, ..., n1\<close>.
\<close>

definition np_linspace :: "nat \<Rightarrow> real list" where
  "np_linspace n1 = map (\<lambda>i. fl64 (real i)) [0 ..< Suc n1]"

text \<open>
  \<open>np.interp(x, xp, fp, left, right)\<close> for one query value. numpy first compares the key
  with the last and the first sample point, then looks for the bracket \<open>j\<close> with
  \<open>xp[j] \<le> x < xp[j+1]\<close>: for short arrays by the linear scan
  \<^verbatim>\<open>for (i = 1; i < len && key >= arr[i]; ++i); return i - 1;\<close>
  modelled here, for longer ones by bisection, which finds the same bracket whenever \<open>xp\<close>
  is sorted. numpy does not check that \<open>xp\<close> is increasing. Inside the bracket numpy
  computes \<^verbatim>\<open>slope = (fp[j+1] - fp[j]) / (xp[j+1] - xp[j])\<close> and
  \<^verbatim>\<open>slope * (x - xp[j]) + fp[j]\<close> in float64, rounding after every operation.
  \<open>np.interp\<close> casts \<open>x\<close> and \<open>xp\<close> to float64 first; \<open>fp\<close> is passed as a float64 array.
\<close>

definition search_bracket :: "real \<Rightarrow> real list \<Rightarrow> nat" where
  "search_bracket key arr = length (takeWhile (\<lambda>a. a \<le> key) (tl arr))"

definition interp_segment :: "real list \<Rightarrow> real list \<Rightarrow> nat \<Rightarrow> real \<Rightarrow> real" where
  "interp_segment xp fp j x =
     (let slope = fl64 (fl64 (fp ! (j + 1) - fp ! j) / fl64 (xp ! (j + 1) - xp ! j))
      in fl64 (fl64 (slope * fl64 (x - xp ! j)) + fp ! j))"

definition interp1 :: "real list \<Rightarrow> real list \<Rightarrow> real \<Rightarrow> real \<Rightarrow> real \<Rightarrow> real" where
  "interp1 xp fp left right x =
     (if x > last xp then right
      else if x < hd xp then left
      else let j = search_bracket x xp in
        if j = length xp - 1 then fp ! j
        else interp_segment xp fp j x)"

definition np_interp :: "real list \<Rightarrow> real list \<Rightarrow> real list \<Rightarrow> real \<Rightarrow> real \<Rightarrow> error + real list" where
  "np_interp xs xp fp left right =
     (if xp = [] then Inl (NumpyValueError ''array of sample points is empty'')
      else if length fp \<noteq> length xp then Inl (NumpyValueError ''fp and xp are not of the same length'')
      else Inr (map (interp1 (map fl64 xp) fp left right) (map fl64 xs)))"

section \<open>Index resolution: \<open>get_coord_indexes\<close>\<close>

definition ds_getitem :: "dataset \<Rightarrow> string \<Rightarrow> error + variable" where
  "ds_getitem ds name =
     (case map_of (ds_coords ds) name of None \<Rightarrow> Inl (KeyError name) | Some v \<Rightarrow> Inr v)"

definition get_bounds_var :: "dataset \<Rightarrow> string \<Rightarrow> error + variable option" where
  "get_bounds_var ds var_name =
     (case ds_getitem ds var_name of
        Inl e \<Rightarrow> Inl e
      | Inr var \<Rightarrow>
          if length (var_shape var) = 1 then
            (let bounds_var_name =
                   (case var_bounds_attr var of Some b \<Rightarrow> b | None \<Rightarrow> var_name @ ''_bnds'')
             in case map_of (ds_coords ds) bounds_var_name of
                  None \<Rightarrow> Inr None
                | Some bounds_var \<Rightarrow>
                    if var_dtype bounds_var = var_dtype var
                       \<and> var_shape bounds_var = [size_of var, 2]
                    then Inr (Some bounds_var) else Inr None)
          else Inr None)"

text \<open>The rows of an array of shape \<open>(n, 2)\<close>.\<close>

fun rows2 :: "real list \<Rightarrow> (real \<times> real) list" where
  "rows2 (a # b # xs) = (a, b) # rows2 xs"
| "rows2 _ = []"

text \<open>
  The edge array built from a bounds variable: the first column, then the upper bound of the
  last row. \<open>coord_bounds[::-1, ::-1]\<close> reverses the rows and swaps the two columns.
  Indexing row 0 of an empty array raises.
\<close>

definition edges_from_bounds :: "variable \<Rightarrow> error + real list \<times> bool" where
  "edges_from_bounds bounds_var =
     (let dt = var_dtype bounds_var;
          coord_bounds = rows2 (as_numbers dt (var_vals bounds_var))
      in case coord_bounds of
           [] \<Rightarrow> Inl IndexError
         | (b00, b01) # _ \<Rightarrow>
             let is_reversed = (np_sub dt b01 b00 < 0);
                 coord_bounds = (if is_reversed then map prod.swap (rev coord_bounds)
                                 else coord_bounds)
             in Inr (map fst coord_bounds @ [snd (last coord_bounds)], is_reversed))"

text \<open>
  The edge array inferred from the centers of an axis of size above 1. The deltas are the
  differences of neighbouring centers, the last one repeated twice; each edge is its center
  minus half its delta (floor division for the integer type, rounded float64 operations
  for the float type).

  A variable that is not one-dimensional makes numpy raise here (the truth value of an
  array, or a slice assignment that cannot be broadcast). For a date/time axis the arrays are
  unsigned 64-bit, \<open>np.issubdtype(uint64, np.int)\<close> is false, and the in-place subtraction of
  a float array from an unsigned array is refused by numpy's casting rule.
\<close>

definition edges_from_centers :: "variable \<Rightarrow> error + real list \<times> bool" where
  "edges_from_centers coord_var =
     (if length (var_shape coord_var) \<noteq> 1 then Inl (NumpyValueError ''not a 1-D array'')
      else
        let dt = var_dtype coord_var;
            center_coords = as_numbers dt (var_vals coord_var);
            is_reversed = (np_sub dt (last center_coords) (hd center_coords) < 0);
            center_coords = (if is_reversed then rev center_coords else center_coords);
            diffs = np_diff dt center_coords;
            deltas = diffs @ [last diffs, last diffs];
            coords = center_coords @ [np_add dt (last center_coords) (last deltas)]
        in case dt of
             DInt \<Rightarrow> Inr (map2 (\<lambda>c d. c - of_int \<lfloor>d / 2\<rfloor>) coords deltas, is_reversed)
           | DFloat \<Rightarrow> Inr (map2 (\<lambda>c d. fl64 (c - fl64 (0.5 * d))) coords deltas, is_reversed)
           | DDatetime \<Rightarrow> Inl (TypeError ''cannot cast float64 to uint64''))"

text \<open>Lines 448 to 483: the size of the axis, its edge array and \<open>is_reversed\<close>.\<close>

definition cell_edges :: "dataset \<Rightarrow> string \<Rightarrow> error + nat \<times> real list \<times> bool" where
  "cell_edges ds coord_var_name =
     (case ds_getitem ds coord_var_name of
        Inl e \<Rightarrow> Inl e
      | Inr coord_var \<Rightarrow>
          let n1 = size_of coord_var in
          case get_bounds_var ds coord_var_name of
            Inl e \<Rightarrow> Inl e
          | Inr (Some coord_bounds_var) \<Rightarrow>
              (case edges_from_bounds coord_bounds_var of
                 Inl e \<Rightarrow> Inl e
               | Inr (coords, is_reversed) \<Rightarrow> Inr (n1, coords, is_reversed))
          | Inr None \<Rightarrow>
              if n1 > 1 then
                (case edges_from_centers coord_var of
                   Inl e \<Rightarrow> Inl e
                 | Inr (coords, is_reversed) \<Rightarrow> Inr (n1, coords, is_reversed))
              else Inl (CannotDetermineCellBoundaries coord_var_name n1))"

datatype coord_indexes = Indexes "int list" | IndexesFractions "int list" "real list"

text \<open>
  Lines 489 to 494 for one interpolation result. \<open>result - indexes\<close> casts the index to
  float64 and subtracts in float64.
\<close>

definition index_of :: "nat \<Rightarrow> real \<Rightarrow> int" where
  "index_of n1 result =
     (let i = astype_int64 result in if i \<ge> int n1 then int n1 - 1 else i)"

definition fraction_of :: "nat \<Rightarrow> real \<Rightarrow> real" where
  "fraction_of n1 result =
     (if astype_int64 result \<ge> int n1 then 1
      else fl64 (result - fl64 (of_int (index_of n1 result))))"

text \<open>Lines 485 and 486: date/time query values are reinterpreted as unsigned integers.\<close>

definition query_values :: "array1 \<Rightarrow> real list" where
  "query_values coord_values = as_numbers (arr_dtype coord_values) (arr_vals coord_values)"

definition get_coord_indexes :: "dataset \<Rightarrow> string \<Rightarrow> array1 \<Rightarrow> bool \<Rightarrow> error + coord_indexes" where
  "get_coord_indexes ds coord_var_name coord_values ret_fractions =
     (case cell_edges ds coord_var_name of
        Inl e \<Rightarrow> Inl e
      | Inr (n1, coords, is_reversed) \<Rightarrow>
          let x = np_linspace n1
          in case np_interp (query_values coord_values) coords x (- 1) (- 1) of
               Inl e \<Rightarrow> Inl e
             | Inr result \<Rightarrow>
                 let indexes = map (index_of n1) result in
                 if ret_fractions then
                   (let fractions = map (fraction_of n1) result in
                    if is_reversed then Inr (IndexesFractions (rev indexes) (rev fractions))
                    else Inr (IndexesFractions indexes fractions))
                 else if is_reversed then Inr (Indexes (rev indexes))
                 else Inr (Indexes indexes))"

section \<open>The cell edges as the specification describes them\<close>



section \<open>Cube validation: \<open>verify_cube\<close> and \<open>assert_cube\<close>\<close>

text \<open>
  \<open>dataset.dims\<close> maps every dimension name of the dataset to its size. The arrays are
  numpy arrays held in memory, so no variable has chunks and the comparison of the chunk
  sizes of two data variables never reports an issue.
\<close>

definition ds_dims :: "dataset \<Rightarrow> string \<Rightarrow> nat option" where
  "ds_dims ds =
     map_of (concat (map (\<lambda>(name, v). zip (var_dims v) (var_shape v)) (ds_coords ds))
             @ concat (map (\<lambda>(name, v). zip (dv_dims v) (dv_shape v)) (ds_data_vars ds)))"

text \<open>
  \<open>_check_dim\<close> appends an issue for a missing dimension and then reads
  \<open>dataset.dims[name]\<close>, which raises \<open>KeyError\<close> for that same dimension.
\<close>

definition check_dim :: "dataset \<Rightarrow> string \<Rightarrow> issue list \<Rightarrow> error + issue list" where
  "check_dim ds name report =
     (let report = (if ds_dims ds name = None then report @ [MissingDimension name] else report)
      in case ds_dims ds name of
           None \<Rightarrow> Inl (KeyError name)
         | Some n \<Rightarrow>
             Inr (if int n < 0 then report @ [DimensionSizeNotPositive name] else report))"

definition check_coord_var :: "dataset \<Rightarrow> string \<Rightarrow> issue list \<Rightarrow> variable option \<times> issue list" where
  "check_coord_var ds name report =
     (case map_of (ds_coords ds) name of
        None \<Rightarrow> (None, report @ [MissingCoordVar name])
      | Some var \<Rightarrow>
          if var_dims var \<noteq> [name] then (None, report @ [CoordVarNotSingleDim name])
          else if size_of var = 0 then (None, report @ [CoordVarEmpty name])
          else (Some var, report))"

text \<open>The values are reals, so the test that they are finite always passes.\<close>

definition check_lon_or_lat :: "dataset \<Rightarrow> string \<Rightarrow> real \<Rightarrow> real \<Rightarrow> issue list \<Rightarrow> issue list" where
  "check_lon_or_lat ds name min_value max_value report =
     (case check_coord_var ds name report of
        (None, report) \<Rightarrow> report
      | (Some var, report) \<Rightarrow>
          if (\<exists>v \<in> set (var_vals var). v < min_value) \<or> (\<exists>v \<in> set (var_vals var). v > max_value)
          then report @ [CoordVarOutOfRange name min_value max_value] else report)"

definition check_time :: "dataset \<Rightarrow> string \<Rightarrow> issue list \<Rightarrow> issue list" where
  "check_time ds name report =
     (case check_coord_var ds name report of
        (None, report) \<Rightarrow> report
      | (Some var, report) \<Rightarrow>
          let report = (if var_dtype var \<noteq> DDatetime then report @ [TimeNotDatetime name]
                        else report)
          in if \<not> list_all (\<lambda>d. d > 0) (np_diff DFloat (map fl64 (var_vals var)))
             then report @ [TimeNotIncreasing name] else report)"

text \<open>
  \<open>_check_data_variables\<close>: the loop over the data variables, with the first variable and
  its dimensions as the state.
\<close>

fun check_data_variables_loop ::
  "(string \<times> string list) option \<Rightarrow> (string \<times> data_var) list \<Rightarrow> issue list \<Rightarrow> issue list" where
  "check_data_variables_loop first [] report = report"
| "check_data_variables_loop first ((var_name, var) # rest) report =
     (let dims = dv_dims var;
          report = (if length dims < 3 \<or> hd dims \<noteq> ''time''
                       \<or> dims ! (length dims - 2) \<noteq> ''lat'' \<or> last dims \<noteq> ''lon''
                    then report @ [DataVarDims var_name dims] else report)
      in case first of
           None \<Rightarrow> check_data_variables_loop (Some (var_name, dims)) rest report
         | Some (first_name, first_dims) \<Rightarrow>
             check_data_variables_loop first rest
               (if first_dims \<noteq> dims
                then report @ [DataVarDimsDiffer first_dims first_name dims var_name]
                else report))"

definition verify_cube :: "dataset \<Rightarrow> error + issue list" where
  "verify_cube ds =
     (case check_dim ds ''time'' [] of
        Inl e \<Rightarrow> Inl e
      | Inr report \<Rightarrow>
     (case check_dim ds ''lat'' report of
        Inl e \<Rightarrow> Inl e
      | Inr report \<Rightarrow>
     (case check_dim ds ''lon'' report of
        Inl e \<Rightarrow> Inl e
      | Inr report \<Rightarrow>
          let report = check_time ds ''time'' report;
              report = check_lon_or_lat ds ''lat'' (- 90) 90 report;
              report = check_lon_or_lat ds ''lon'' (- 180) 180 report
          in Inr (check_data_variables_loop None (ds_data_vars ds) report))))"

definition assert_cube :: "dataset \<Rightarrow> error + unit" where
  "assert_cube ds =
     (case verify_cube ds of
        Inl e \<Rightarrow> Inl e
      | Inr report \<Rightarrow> if report \<noteq> [] then Inl (NotAValidCube report) else Inr ())"

section \<open>Point indexes: \<open>get_cube_point_indexes\<close>\<close>

text \<open>
  A point set is a table of named coordinate columns and an index frame a table of named
  integer columns, both in column order. The caller passes a data frame or an object that
  pandas converts into one, such as a mapping from column names to arrays (lines 391 and
  392). The columns of a data frame have one length; for arrays of different lengths the
  conversion raises, and a data frame passes through unchanged.
\<close>

type_synonym point_frame = "(string \<times> array1) list"
type_synonym index_frame = "(string \<times> int list) list"
type_synonym value_frame = "(string \<times> cell list) list"

definition pd_DataFrame :: "point_frame \<Rightarrow> error + point_frame" where
  "pd_DataFrame points =
     (case points of
        [] \<Rightarrow> Inr []
      | (name, col) # rest \<Rightarrow>
          if list_all (\<lambda>(n, c). length (arr_vals c) = length (arr_vals col)) rest
          then Inr points
          else Inl (PandasValueError ''arrays must all be same length''))"

definition get_cube_data_var_dims :: "dataset \<Rightarrow> error + string list" where
  "get_cube_data_var_dims cube =
     (case ds_data_vars cube of [] \<Rightarrow> Inl CubeDatasetIsEmpty | (name, var) # _ \<Rightarrow> Inr (dv_dims var))"

text \<open>
  \<^verbatim>\<open>dim_name_mapping[dim_name] if dim_name_mapping and dim_name in dim_name_mapping else dim_name\<close>
\<close>

definition col_name_of :: "(string \<times> string) list option \<Rightarrow> string \<Rightarrow> string" where
  "col_name_of dim_name_mapping dim_name =
     (case dim_name_mapping of
        None \<Rightarrow> dim_name
      | Some m \<Rightarrow> (case map_of m dim_name of None \<Rightarrow> dim_name | Some c \<Rightarrow> c))"

text \<open>
  The loop of lines 398 to 415, with \<open>first_col_name\<close> as its state. Without
  \<open>ret_fractions\<close> the result of \<open>get_coord_indexes\<close> is the index array alone; the
  branch for the pair of arrays is never taken.
\<close>

fun point_indexes_loop ::
  "dataset \<Rightarrow> point_frame \<Rightarrow> (string \<times> string) list option \<Rightarrow> string option \<Rightarrow> string list
     \<Rightarrow> error + index_frame" where
  "point_indexes_loop cube points dim_name_mapping first_col_name [] = Inr []"
| "point_indexes_loop cube points dim_name_mapping first_col_name (dim_name # rest) =
     (if map_of (ds_coords cube) dim_name = None then Inl (MissingCoordinateVariable dim_name)
      else
        let col_name = col_name_of dim_name_mapping dim_name in
        case map_of points col_name of
          None \<Rightarrow> Inl (ColumnNotFound col_name)
        | Some dim_col \<Rightarrow>
            (case (case first_col_name of
                     None \<Rightarrow> Inr (Some col_name)
                   | Some first \<Rightarrow>
                       (case map_of points first of
                          None \<Rightarrow> Inl (KeyError first)
                        | Some first_col \<Rightarrow>
                            let first_col_size = length (arr_vals first_col);
                                col_size = length (arr_vals dim_col)
                            in if first_col_size \<noteq> col_size
                               then Inl (LengthMismatch first_col_size first col_size col_name)
                               else Inr (Some first))) of
               Inl e \<Rightarrow> Inl e
             | Inr first_col_name \<Rightarrow>
                 (case get_coord_indexes cube dim_name dim_col False of
                    Inl e \<Rightarrow> Inl e
                  | Inr (IndexesFractions is fs) \<Rightarrow> Inl (TypeError ''indexes expected'')
                  | Inr (Indexes is) \<Rightarrow>
                      (case point_indexes_loop cube points dim_name_mapping first_col_name rest of
                         Inl e \<Rightarrow> Inl e
                       | Inr indexes \<Rightarrow> Inr ((dim_name, is) # indexes)))))"

text \<open>The value of \<open>first_col_name\<close> after the loop has run over the dimensions \<open>pre\<close>.\<close>

definition first_after ::
  "(string \<times> string) list option \<Rightarrow> string option \<Rightarrow> string list \<Rightarrow> string option" where
  "first_after m first pre =
     (case first of
        Some f \<Rightarrow> Some f
      | None \<Rightarrow> (case pre of [] \<Rightarrow> None | d # _ \<Rightarrow> Some (col_name_of m d)))"

definition get_cube_point_indexes ::
  "dataset \<Rightarrow> point_frame \<Rightarrow> (string \<times> string) list option \<Rightarrow> bool \<Rightarrow> error + index_frame" where
  "get_cube_point_indexes cube points dim_name_mapping cube_asserted =
     (case (if \<not> cube_asserted then assert_cube cube else Inr ()) of
        Inl e \<Rightarrow> Inl e
      | Inr _ \<Rightarrow>
          (case pd_DataFrame points of
             Inl e \<Rightarrow> Inl e
           | Inr points \<Rightarrow>
               (case get_cube_data_var_dims cube of
                  Inl e \<Rightarrow> Inl e
                | Inr dim_names \<Rightarrow>
                    point_indexes_loop cube points dim_name_mapping None dim_names)))"

section \<open>Value extraction: \<open>get_cube_values\<close>\<close>

definition get_cube_dims :: "dataset \<Rightarrow> string list option" where
  "get_cube_dims cube =
     (case ds_data_vars cube of [] \<Rightarrow> None | (name, var) # _ \<Rightarrow> Some (dv_dims var))"

text \<open>
  \<open>np.stack(index_arrays, axis=-1)\<close>: the rows of the table whose columns are the arrays.
  numpy raises for an empty list of arrays and for arrays of different lengths.
\<close>

definition np_stack :: "int list list \<Rightarrow> error + int list list" where
  "np_stack arrays =
     (case arrays of
        [] \<Rightarrow> Inl (NumpyValueError ''need at least one array to stack'')
      | a # as \<Rightarrow>
          if list_all (\<lambda>b. length b = length a) as
          then Inr (map (\<lambda>i. map (\<lambda>col. col ! i) arrays) [0 ..< length a])
          else Inl (NumpyValueError ''all input arrays must have the same shape''))"

text \<open>
  \<open>var_data[row_index]\<close> with a tuple of integers: a negative index counts from the end
  of its axis, an index outside its axis raises \<open>IndexError\<close>, and so do more indexes than
  axes. The offset is the one of the row-major layout. With fewer indexes than axes the
  result is a sub-array, which can be stored into one element only if it has one element.
\<close>

fun nd_offset :: "nat list \<Rightarrow> int list \<Rightarrow> error + nat" where
  "nd_offset shp [] = Inr 0"
| "nd_offset [] (i # is) = Inl IndexError"
| "nd_offset (n # shp) (i # is) =
     (let j = (if i < 0 then i + int n else i) in
      if 0 \<le> j \<and> j < int n then
        (case nd_offset shp is of
           Inl e \<Rightarrow> Inl e
         | Inr off \<Rightarrow> Inr (nat j * prod_list shp + off))
      else Inl IndexError)"

definition nd_getitem :: "data_var \<Rightarrow> int list \<Rightarrow> error + cell" where
  "nd_getitem var row_index =
     (case nd_offset (dv_shape var) row_index of
        Inl e \<Rightarrow> Inl e
      | Inr off \<Rightarrow>
          if prod_list (drop (length row_index) (dv_shape var)) = 1 then Inr (dv_data var ! off)
          else Inl (NumpyValueError ''setting an array element with a sequence''))"

text \<open>The offset of a cell in the row-major layout, and the value stored at a cell.\<close>

fun flat_index :: "nat list \<Rightarrow> nat list \<Rightarrow> nat" where
  "flat_index (n # shp) (i # is) = i * prod_list shp + flat_index shp is"
| "flat_index shp is = 0"

definition stored_value :: "data_var \<Rightarrow> nat list \<Rightarrow> cell" where
  "stored_value var cell_index = dv_data var ! flat_index (dv_shape var) cell_index"

text \<open>
  \<open>var_values[j][i] = np.nan\<close>: the array has the element type of the data variable, and
  numpy cannot convert not-a-number to an integer.
\<close>

definition setitem_nan :: "value_dtype \<Rightarrow> error + cell" where
  "setitem_nan dt =
     (case dt of
        VFloat \<Rightarrow> Inr NaN
      | VInt \<Rightarrow> Inl (NumpyValueError ''cannot convert float NaN to integer''))"

text \<open>Running the assignments of one row, or of all rows, in order: the first error ends the loop.\<close>

fun sequence :: "(error + 'a) list \<Rightarrow> error + 'a list" where
  "sequence [] = Inr []"
| "sequence (Inl e # rs) = Inl e"
| "sequence (Inr a # rs) = (case sequence rs of Inl e \<Rightarrow> Inl e | Inr as \<Rightarrow> Inr (a # as))"

text \<open>Lines 339 to 346: the values of one row for all data variables.\<close>

definition row_values :: "data_var list \<Rightarrow> int list \<Rightarrow> error + cell list" where
  "row_values vars row_index =
     (if - 1 \<in> set row_index then sequence (map (\<lambda>var. setitem_nan (dv_dtype var)) vars)
      else sequence (map (\<lambda>var. nd_getitem var row_index) vars))"

text \<open>
  \<open>pd.concat(values, indexes)\<close>: the first parameter of \<open>pd.concat\<close> is the sequence of
  the frames to concatenate and the second one the axis. pandas refuses a data frame as its
  first argument.
\<close>

definition pd_concat :: "value_frame \<Rightarrow> index_frame \<Rightarrow> error + value_frame" where
  "pd_concat objs axis =
     Inl (TypeError ''first argument must be an iterable of pandas objects'')"

definition get_cube_values :: "dataset \<Rightarrow> index_frame \<Rightarrow> bool \<Rightarrow> bool \<Rightarrow> error + value_frame" where
  "get_cube_values cube indexes include_indexes cube_asserted =
     (case (if \<not> cube_asserted then assert_cube cube else Inr ()) of
        Inl e \<Rightarrow> Inl e
      | Inr _ \<Rightarrow>
          (case get_cube_dims cube of
             None \<Rightarrow> Inl (TypeError ''object of type NoneType has no len()'')
           | Some dims \<Rightarrow>
               (case sequence (map (\<lambda>dim_name. case map_of indexes dim_name of
                                       None \<Rightarrow> Inl (MissingDimensionInIndexes dim_name)
                                     | Some col \<Rightarrow> Inr col) dims) of
                  Inl e \<Rightarrow> Inl e
                | Inr index_arrays \<Rightarrow>
                    (case np_stack index_arrays of
                       Inl e \<Rightarrow> Inl e
                     | Inr row_indexes \<Rightarrow>
                         let vars = map snd (ds_data_vars cube);
                             var_names = map fst (ds_data_vars cube);
                             num_vars = length var_names
                         in case sequence (map (row_values vars) row_indexes) of
                              Inl e \<Rightarrow> Inl e
                            | Inr rows \<Rightarrow>
                                let var_values = map (\<lambda>j. map (\<lambda>row. row ! j) rows) [0 ..< num_vars];
                                    values = zip var_names var_values
                                in if include_indexes then pd_concat values indexes
                                   else Inr values))))"

section \<open>Point extraction: \<open>get_cube_point_values\<close>\<close>

definition get_cube_point_values ::
  "dataset \<Rightarrow> point_frame \<Rightarrow> bool \<Rightarrow> bool \<Rightarrow> error + value_frame" where
  "get_cube_point_values cube points include_indexes cube_asserted =
     (case (if \<not> cube_asserted then assert_cube cube else Inr ()) of
        Inl e \<Rightarrow> Inl e
      | Inr _ \<Rightarrow>
          (case get_cube_point_indexes cube points None True of
             Inl e \<Rightarrow> Inl e
           | Inr indexes \<Rightarrow> get_cube_values cube indexes include_indexes True))"

section \<open>Python values and their text\<close>

text \<open>
  The values that reach the tile renderer untyped: the colour parameters and the values of
  the labels. \<open>str\<close> of an integer is its decimal text and \<open>hex\<close> of a non-negative integer
  is \<open>0x\<close> followed by its hexadecimal digits. The text of a float is Python's own
  algorithm and is a parameter \<open>fstr\<close> of the model.
\<close>

datatype pyval = PyNone | PyStr string | PyInt int | PyFloat real | PyNaN

definition digit_char :: "nat \<Rightarrow> char" where
  "digit_char d = ''0123456789abcdef'' ! d"

function to_base :: "nat \<Rightarrow> nat \<Rightarrow> string" where
  "to_base b n =
     (if b < 2 \<or> n < b then [digit_char n] else to_base b (n div b) @ [digit_char (n mod b)])"
  by pat_completeness auto
termination
  by (relation "measure (\<lambda>(b, n). n)") auto

definition py_hex :: "nat \<Rightarrow> string" where
  "py_hex n = ''0x'' @ to_base 16 n"

definition str_int :: "int \<Rightarrow> string" where
  "str_int i = (if i < 0 then CHR ''-'' # to_base 10 (nat (- i)) else to_base 10 (nat i))"

fun py_str :: "(real \<Rightarrow> string) \<Rightarrow> pyval \<Rightarrow> string" where
  "py_str fstr PyNone = ''None''"
| "py_str fstr (PyStr s) = s"
| "py_str fstr (PyInt i) = str_int i"
| "py_str fstr (PyFloat r) = fstr r"
| "py_str fstr PyNaN = ''nan''"

fun py_join :: "string \<Rightarrow> string list \<Rightarrow> string" where
  "py_join sep [] = []"
| "py_join sep [x] = x"
| "py_join sep (x # y # ys) = x @ sep @ py_join sep (y # ys)"

section \<open>Tile rendering: \<open>get_ml_dataset_tile\<close>\<close>

text \<open>
  The multi-level dataset, its variables and the tiled images are collaborators of the
  renderer. A variable of the level dataset carries its number of axes, its values as a
  plane, its attributes and xarray's two selections (\<open>isel\<close> by index, \<open>sel\<close> by nearest
  label) as functions that return a plane or raise. The multi-level dataset carries the
  identity \<open>id(ml_dataset)\<close> of the Python object.
\<close>

record tile_var =
  tv_ndim :: nat
  tv_values :: "cell list"
  tv_isel :: "(string \<times> pyval) list \<Rightarrow> error + cell list"
  tv_sel_nearest :: "(string \<times> pyval) list \<Rightarrow> error + cell list"
  tv_fill_value :: "real option"
  tv_valid_range :: "(real \<times> real) option"
  tv_valid_min :: "real option"
  tv_valid_max :: "real option"

record tile_grid =
  tg_tile_size :: "nat \<times> nat"
  tg_inv_y :: bool

record ml_dataset =
  ml_id :: nat
  ml_num_levels :: int
  ml_get_dataset :: "int \<Rightarrow> error + (string \<times> tile_var) list"
  ml_tile_grid :: tile_grid

text \<open>
  The rendering pipeline that the function builds: its identity, the plane, the
  normalization range and the other settings handed to the image classes.
\<close>

record tiled_image =
  ti_image_id :: string
  ti_array :: "cell list"
  ti_value_range :: "cell \<times> cell"
  ti_cmap_name :: pyval
  ti_tile_size :: "nat \<times> nat"
  ti_flip_y :: bool
  ti_no_data_value :: "real option"
  ti_valid_range :: "(real \<times> real) option"
  ti_comp_mode :: bool

datatype tile = Tile tiled_image int int

text \<open>Lines 61 to 63: the identity of the rendering pipeline.\<close>

definition image_id ::
  "(real \<Rightarrow> string) \<Rightarrow> nat \<Rightarrow> int \<Rightarrow> string \<Rightarrow> pyval \<Rightarrow> pyval \<Rightarrow> pyval
     \<Rightarrow> (string \<times> pyval) list \<Rightarrow> string" where
  "image_id fstr ds_obj_id z var_name cmap_cbar cmap_vmin cmap_vmax labels =
     (let ds_id = py_hex ds_obj_id in
      py_join ''-''
        (map (py_str fstr)
           ([PyStr ds_id, PyInt z, PyStr var_name, cmap_cbar, cmap_vmin, cmap_vmax]
            @ map (\<lambda>(dim_name, dim_value). PyStr (dim_name @ ''='' @ py_str fstr dim_value))
                  labels)))"

text \<open>Lines 69 to 74: the valid range from the attributes.\<close>

definition valid_range_of :: "tile_var \<Rightarrow> (real \<times> real) option" where
  "valid_range_of var =
     (case tv_valid_range var of
        Some r \<Rightarrow> Some r
      | None \<Rightarrow>
          (case (tv_valid_min var, tv_valid_max var) of
             (Some valid_min, Some valid_max) \<Rightarrow> Some (valid_min, valid_max)
           | _ \<Rightarrow> None))"

text \<open>
  Lines 77 to 89: the plane. \<open>assert\<close> raises \<open>AssertionError\<close>; the last branch raises
  \<open>exception_type\<close> with the name and the number of axes of the variable.
\<close>

definition select_plane ::
  "string \<Rightarrow> tile_var \<Rightarrow> (string \<times> pyval) list \<Rightarrow> bool \<Rightarrow> error + cell list" where
  "select_plane var_name var labels labels_are_indices =
     (if tv_ndim var = 2 then
        (if length labels = 0 then Inr (tv_values var) else Inl AssertionError)
      else if tv_ndim var > 2 then
        (if length labels = tv_ndim var - 2 then
           (if labels_are_indices then tv_isel var labels else tv_sel_nearest var labels)
         else Inl AssertionError)
      else Inl (TooFewDimensions var_name (tv_ndim var)))"

text \<open>
  \<open>np.isnan\<close> of a colour parameter: numbers are tested, \<open>None\<close> and strings are not
  supported by the ufunc and raise \<open>TypeError\<close>.
\<close>

fun np_isnan :: "pyval \<Rightarrow> error + bool" where
  "np_isnan PyNaN = Inr True"
| "np_isnan (PyInt i) = Inr False"
| "np_isnan (PyFloat r) = Inr False"
| "np_isnan PyNone = Inl (TypeError ''ufunc isnan not supported for the input types'')"
| "np_isnan (PyStr s) = Inl (TypeError ''ufunc isnan not supported for the input types'')"

text \<open>
  \<open>array.min()\<close> and \<open>array.max()\<close> of the loaded plane: the reduction skips the
  not-a-number cells, is not-a-number when nothing is left and raises on an empty array.
\<close>

definition finite_cells :: "cell list \<Rightarrow> real list" where
  "finite_cells cs = concat (map (\<lambda>c. case c of NaN \<Rightarrow> [] | Val v \<Rightarrow> [v]) cs)"

definition array_min :: "cell list \<Rightarrow> error + cell" where
  "array_min cs =
     (if cs = [] then Inl (NumpyValueError ''zero-size array to reduction operation'')
      else case finite_cells cs of [] \<Rightarrow> Inr NaN | v # vs \<Rightarrow> Inr (Val (fold min vs v)))"

definition array_max :: "cell list \<Rightarrow> error + cell" where
  "array_max cs =
     (if cs = [] then Inl (NumpyValueError ''zero-size array to reduction operation'')
      else case finite_cells cs of [] \<Rightarrow> Inr NaN | v # vs \<Rightarrow> Inr (Val (fold max vs v)))"

fun cell_of_pyval :: "pyval \<Rightarrow> cell" where
  "cell_of_pyval (PyInt i) = Val (of_int i)"
| "cell_of_pyval (PyFloat r) = Val r"
| "cell_of_pyval _ = NaN"

text \<open>
  Lines 93 and 94 for one bound:
  \<^verbatim>\<open>cmap_vmin = array.min() if np.isnan(cmap_vmin) else cmap_vmin\<close>.
\<close>

definition norm_bound :: "(cell list \<Rightarrow> error + cell) \<Rightarrow> cell list \<Rightarrow> pyval \<Rightarrow> error + cell" where
  "norm_bound reduce array cmap_v =
     (case np_isnan cmap_v of
        Inl e \<Rightarrow> Inl e
      | Inr True \<Rightarrow> reduce array
      | Inr False \<Rightarrow> Inr (cell_of_pyval cmap_v))"

definition normalization_range :: "cell list \<Rightarrow> pyval \<Rightarrow> pyval \<Rightarrow> error + cell \<times> cell" where
  "normalization_range array cmap_vmin cmap_vmax =
     (case norm_bound array_min array cmap_vmin of
        Inl e \<Rightarrow> Inl e
      | Inr vmin \<Rightarrow>
          (case norm_bound array_max array cmap_vmax of
             Inl e \<Rightarrow> Inl e
           | Inr vmax \<Rightarrow> Inr (vmin, vmax)))"

text \<open>
  The image cache is an optional mutable mapping. \<open>if image_cache\<close> is false for \<open>None\<close>
  and for an empty mapping. The function returns the tile and the cache as it leaves it.
\<close>

definition cache_truthy :: "(string \<times> tiled_image) list option \<Rightarrow> bool" where
  "cache_truthy image_cache = (case image_cache of None \<Rightarrow> False | Some m \<Rightarrow> m \<noteq> [])"

definition cache_lookup :: "(string \<times> tiled_image) list option \<Rightarrow> string \<Rightarrow> tiled_image option" where
  "cache_lookup image_cache key = (case image_cache of None \<Rightarrow> None | Some m \<Rightarrow> map_of m key)"

definition cache_store ::
  "(string \<times> tiled_image) list option \<Rightarrow> string \<Rightarrow> tiled_image \<Rightarrow> (string \<times> tiled_image) list option" where
  "cache_store image_cache key img =
     (case image_cache of None \<Rightarrow> None | Some m \<Rightarrow> Some (AList.update key img m))"

definition get_ml_dataset_tile ::
  "(real \<Rightarrow> string) \<Rightarrow> ml_dataset \<Rightarrow> string \<Rightarrow> int \<Rightarrow> int \<Rightarrow> int
     \<Rightarrow> (string \<times> pyval) list option \<Rightarrow> bool \<Rightarrow> pyval \<Rightarrow> pyval \<Rightarrow> pyval
     \<Rightarrow> (string \<times> tiled_image) list option \<Rightarrow> bool
     \<Rightarrow> error + tile \<times> (string \<times> tiled_image) list option" where
  "get_ml_dataset_tile fstr ml_dataset var_name x y z labels labels_are_indices
       cmap_cbar cmap_vmin cmap_vmax image_cache tile_comp_mode =
     (case ml_get_dataset ml_dataset (ml_num_levels ml_dataset - 1 - z) of
        Inl e \<Rightarrow> Inl e
      | Inr dataset \<Rightarrow>
          (case map_of dataset var_name of
             None \<Rightarrow> Inl (KeyError var_name)
           | Some var \<Rightarrow>
               let labels = (case labels of None \<Rightarrow> [] | Some l \<Rightarrow> l);
                   image_id = image_id fstr (ml_id ml_dataset) z var_name
                                cmap_cbar cmap_vmin cmap_vmax labels
               in if cache_truthy image_cache \<and> cache_lookup image_cache image_id \<noteq> None then
                    Inr (Tile (the (cache_lookup image_cache image_id)) x y, image_cache)
                  else
                    (case select_plane var_name var labels labels_are_indices of
                       Inl e \<Rightarrow> Inl e
                     | Inr array \<Rightarrow>
                         (case normalization_range array cmap_vmin cmap_vmax of
                            Inl e \<Rightarrow> Inl e
                          | Inr value_range \<Rightarrow>
                              let tile_grid = ml_tile_grid ml_dataset;
                                  img = \<lparr>ti_image_id = ''rgb-'' @ image_id,
                                         ti_array = array,
                                         ti_value_range = value_range,
                                         ti_cmap_name = cmap_cbar,
                                         ti_tile_size = tg_tile_size tile_grid,
                                         ti_flip_y = tg_inv_y tile_grid,
                                         ti_no_data_value = tv_fill_value var,
                                         ti_valid_range = valid_range_of var,
                                         ti_comp_mode = tile_comp_mode\<rparr>;
                                  image_cache = (if cache_truthy image_cache
                                                 then cache_store image_cache image_id img
                                                 else image_cache)
                              in Inr (Tile img x y, image_cache)))))"

section \<open>Example datasets\<close>

text \<open>
  An axis \<open>lat\<close> of four cells with the explicit bounds
  \<open>[[10,20],[20,30],[30,40],[40,50]]\<close>, the same axis stored in decreasing order, and the
  same axis without its bounds variable.
\<close>

definition lat_var :: variable where
  "lat_var = \<lparr>var_dims = [''lat''], var_shape = [4], var_dtype = DFloat,
     var_vals = [15, 25, 35, 45], var_bounds_attr = None\<rparr>"

definition lat_bnds_var :: variable where
  "lat_bnds_var = \<lparr>var_dims = [''lat'', ''bnds''], var_shape = [4, 2], var_dtype = DFloat,
     var_vals = [10, 20, 20, 30, 30, 40, 40, 50], var_bounds_attr = None\<rparr>"

definition lat_ds :: dataset where
  "lat_ds = \<lparr>ds_coords = [(''lat'', lat_var), (''lat_bnds'', lat_bnds_var)], ds_data_vars = []\<rparr>"

definition lat_ds_reversed :: dataset where
  "lat_ds_reversed =
     \<lparr>ds_coords = [(''lat'', lat_var\<lparr>var_vals := [45, 35, 25, 15]\<rparr>),
                   (''lat_bnds'', lat_bnds_var\<lparr>var_vals := [50, 40, 40, 30, 30, 20, 20, 10]\<rparr>)],
      ds_data_vars = []\<rparr>"

definition lat_ds_centers :: dataset where
  "lat_ds_centers = \<lparr>ds_coords = [(''lat'', lat_var)], ds_data_vars = []\<rparr>"

text \<open>
  An axis of four cells of width 1 with the edges \<open>-3, -2, -1, 0, 1\<close>, and a query value
  just below the edge \<open>0\<close>.
\<close>

definition unit_lat_ds :: dataset where
  "unit_lat_ds =
     \<lparr>ds_coords = [(''lat'', lat_var\<lparr>var_vals := [- 5 / 2, - 3 / 2, - 1 / 2, 1 / 2]\<rparr>),
                   (''lat_bnds'', lat_bnds_var\<lparr>var_vals := [- 3, - 2, - 2, - 1, - 1, 0, 0, 1]\<rparr>)],
      ds_data_vars = []\<rparr>"

definition below_zero :: real where
  "below_zero = - 1 / 2 ^ 60"

text \<open>A time axis with a single step and no bounds variable.\<close>

definition time1_var :: variable where
  "time1_var = \<lparr>var_dims = [''time''], var_shape = [1], var_dtype = DDatetime,
     var_vals = [1262304000], var_bounds_attr = None\<rparr>"

definition time1_ds :: dataset where
  "time1_ds = \<lparr>ds_coords = [(''time'', time1_var)], ds_data_vars = []\<rparr>"

text \<open>
  A multi-level dataset with one level: a variable \<open>chl\<close> with two axes and a variable
  \<open>sst\<close> with three axes whose selections return a plane.
\<close>

definition chl_var :: tile_var where
  "chl_var = \<lparr>tv_ndim = 2, tv_values = [Val 1, Val 3, NaN, Val 2],
     tv_isel = (\<lambda>labels. Inr [Val 1, Val 3, NaN, Val 2]),
     tv_sel_nearest = (\<lambda>labels. Inr [Val 1, Val 3, NaN, Val 2]),
     tv_fill_value = None, tv_valid_range = None, tv_valid_min = None, tv_valid_max = None\<rparr>"

definition sst_var :: tile_var where
  "sst_var = \<lparr>tv_ndim = 3, tv_values = [Val 4, Val 5, Val 6, Val 7, Val 8, Val 9, Val 10, Val 11],
     tv_isel = (\<lambda>labels. Inr [Val 4, Val 5, Val 6, Val 7]),
     tv_sel_nearest = (\<lambda>labels. Inr [Val 8, Val 9, Val 10, Val 11]),
     tv_fill_value = None, tv_valid_range = None, tv_valid_min = None, tv_valid_max = None\<rparr>"

definition example_ml_dataset :: ml_dataset where
  "example_ml_dataset =
     \<lparr>ml_id = 26, ml_num_levels = 1,
      ml_get_dataset = (\<lambda>i. if i = 0 then Inr [(''chl'', chl_var), (''sst'', sst_var)]
                             else Inl IndexError),
      ml_tile_grid = \<lparr>tg_tile_size = (2, 2), tg_inv_y = False\<rparr>\<rparr>"

text \<open>
  A second multi-level dataset, created after the first one was released and placed at the
  same address, so that \<open>id\<close> returns the same number: its variable \<open>chl\<close> holds other
  values. And an image cache that already holds the pipeline of some other image.
\<close>

definition recycled_chl_var :: tile_var where
  "recycled_chl_var = chl_var\<lparr>tv_values := [Val 5, Val 6, Val 7, Val 8]\<rparr>"

definition recycled_ml_dataset :: ml_dataset where
  "recycled_ml_dataset =
     \<lparr>ml_id = 26, ml_num_levels = 1,
      ml_get_dataset = (\<lambda>i. if i = 0 then Inr [(''chl'', recycled_chl_var)] else Inl IndexError),
      ml_tile_grid = \<lparr>tg_tile_size = (2, 2), tg_inv_y = False\<rparr>\<rparr>"

definition other_image :: tiled_image where
  "other_image =
     \<lparr>ti_image_id = ''rgb-0x2b-0-tsm-None-nan-nan'', ti_array = [Val 0, Val 0, Val 0, Val 0],
      ti_value_range = (Val 0, Val 0), ti_cmap_name = PyNone, ti_tile_size = (2, 2),
      ti_flip_y = False, ti_no_data_value = None, ti_valid_range = None, ti_comp_mode = False\<rparr>"

definition warm_cache :: "(string \<times> tiled_image) list option" where
  "warm_cache = Some [(''0x2b-0-tsm-None-nan-nan'', other_image)]"

text \<open>
  A cube with the dimensions \<open>time\<close>, \<open>lat\<close> and \<open>lon\<close>: two time steps with bounds,
  two latitudes and two longitudes without bounds, a float variable \<open>chl\<close> and an integer
  variable \<open>flags\<close>.
\<close>

definition cube_time_var :: variable where
  "cube_time_var = \<lparr>var_dims = [''time''], var_shape = [2], var_dtype = DDatetime,
     var_vals = [5, 15], var_bounds_attr = None\<rparr>"

definition cube_time_bnds_var :: variable where
  "cube_time_bnds_var = \<lparr>var_dims = [''time'', ''bnds''], var_shape = [2, 2],
     var_dtype = DDatetime, var_vals = [0, 10, 10, 20], var_bounds_attr = None\<rparr>"

definition cube_lat_var :: variable where
  "cube_lat_var = \<lparr>var_dims = [''lat''], var_shape = [2], var_dtype = DFloat,
     var_vals = [15, 25], var_bounds_attr = None\<rparr>"

definition cube_lon_var :: variable where
  "cube_lon_var = \<lparr>var_dims = [''lon''], var_shape = [2], var_dtype = DFloat,
     var_vals = [1, 3], var_bounds_attr = None\<rparr>"

definition chl_data_var :: data_var where
  "chl_data_var = \<lparr>dv_dims = [''time'', ''lat'', ''lon''], dv_shape = [2, 2, 2],
     dv_dtype = VFloat,
     dv_data = [Val 0, Val 1, Val 2, Val 3, Val 4, Val 5, Val 6, Val 7]\<rparr>"

definition flags_data_var :: data_var where
  "flags_data_var = \<lparr>dv_dims = [''time'', ''lat'', ''lon''], dv_shape = [2, 2, 2],
     dv_dtype = VInt,
     dv_data = [Val 10, Val 11, Val 12, Val 13, Val 14, Val 15, Val 16, Val 17]\<rparr>"

definition example_cube :: dataset where
  "example_cube =
     \<lparr>ds_coords = [(''time'', cube_time_var), (''time_bnds'', cube_time_bnds_var),
                   (''lat'', cube_lat_var), (''lon'', cube_lon_var)],
      ds_data_vars = [(''chl'', chl_data_var), (''flags'', flags_data_var)]\<rparr>"

text \<open>The same cube with a single time step and without the bounds of the time axis.\<close>

definition single_step_cube :: dataset where
  "single_step_cube =
     \<lparr>ds_coords = [(''time'', cube_time_var\<lparr>var_shape := [1], var_vals := [5]\<rparr>),
                   (''lat'', cube_lat_var), (''lon'', cube_lon_var)],
      ds_data_vars = [(''chl'', chl_data_var\<lparr>dv_shape := [1, 2, 2],
                                           dv_data := [Val 0, Val 1, Val 2, Val 3]\<rparr>)]\<rparr>"

text \<open>
  A point set whose \<open>lat\<close> column is shorter than its \<open>time\<close> column, and the point at the
  centers of the first cell of every axis.
\<close>

definition short_lat_points :: point_frame where
  "short_lat_points =
     [(''time'', \<lparr>arr_dtype = DDatetime, arr_vals = [5, 5]\<rparr>),
      (''lat'', \<lparr>arr_dtype = DFloat, arr_vals = [15]\<rparr>),
      (''lon'', \<lparr>arr_dtype = DFloat, arr_vals = [1]\<rparr>)]"

definition first_cell_point :: point_frame where
  "first_cell_point =
     [(''time'', \<lparr>arr_dtype = DDatetime, arr_vals = [5]\<rparr>),
      (''lat'', \<lparr>arr_dtype = DFloat, arr_vals = [15]\<rparr>),
      (''lon'', \<lparr>arr_dtype = DFloat, arr_vals = [1]\<rparr>)]"

text \<open>Three points at cell centers of the example cube: the cells (0,0,0), (1,1,1), (1,0,1).\<close>

definition center_points :: point_frame where
  "center_points =
     [(''time'', \<lparr>arr_dtype = DDatetime, arr_vals = [5, 15, 15]\<rparr>),
      (''lat'', \<lparr>arr_dtype = DFloat, arr_vals = [15, 25, 15]\<rparr>),
      (''lon'', \<lparr>arr_dtype = DFloat, arr_vals = [1, 3, 3]\<rparr>)]"

section \<open>Properties of the float64 rounding\<close>

declare ilog2.simps [simp del]























section \<open>Shapes of the edge array\<close>



lemma length_np_linspace: "length (np_linspace n1) = Suc n1"
  by (simp add: np_linspace_def del: upt_Suc)










section \<open>Interpolation against strictly increasing edges\<close>










section \<open>Truncation and clamping\<close>






section \<open>The edge arrays of the source and of the specification\<close>





section \<open>What \<open>get_coord_indexes\<close> returns\<close>


lemma get_coord_indexes_eq:
  assumes edges: "cell_edges ds name = Inr (n1, coords, is_reversed)"
    and len: "length coords = Suc n1"
  shows "get_coord_indexes ds name q True =
           Inr (IndexesFractions
                 ((if is_reversed then rev else id)
                    (map (\<lambda>v. index_of n1 (interp1 (map fl64 coords) (np_linspace n1) (- 1) (- 1)
                                              (fl64 v)))
                         (query_values q)))
                 ((if is_reversed then rev else id)
                    (map (\<lambda>v. fraction_of n1 (interp1 (map fl64 coords) (np_linspace n1) (- 1) (- 1)
                                                 (fl64 v)))
                         (query_values q))))"
    and "get_coord_indexes ds name q False =
           Inr (Indexes
                 ((if is_reversed then rev else id)
                    (map (\<lambda>v. index_of n1 (interp1 (map fl64 coords) (np_linspace n1) (- 1) (- 1)
                                              (fl64 v)))
                         (query_values q))))"
proof -
  from len have ne: "coords \<noteq> []" by auto
  have i: "np_interp (query_values q) coords (np_linspace n1) (- 1) (- 1)
        = Inr (map (interp1 (map fl64 coords) (np_linspace n1) (- 1) (- 1))
                   (map fl64 (query_values q)))"
    using ne len by (simp add: np_interp_def length_np_linspace)
  show "get_coord_indexes ds name q True =
           Inr (IndexesFractions
                 ((if is_reversed then rev else id)
                    (map (\<lambda>v. index_of n1 (interp1 (map fl64 coords) (np_linspace n1) (- 1) (- 1)
                                              (fl64 v)))
                         (query_values q)))
                 ((if is_reversed then rev else id)
                    (map (\<lambda>v. fraction_of n1 (interp1 (map fl64 coords) (np_linspace n1) (- 1) (- 1)
                                                 (fl64 v)))
                         (query_values q))))"
    by (simp add: get_coord_indexes_def edges i Let_def o_def)
  show "get_coord_indexes ds name q False =
           Inr (Indexes
                 ((if is_reversed then rev else id)
                    (map (\<lambda>v. index_of n1 (interp1 (map fl64 coords) (np_linspace n1) (- 1) (- 1)
                                              (fl64 v)))
                         (query_values q))))"
    by (simp add: get_coord_indexes_def edges i Let_def o_def)
qed





text \<open>Evaluation of the example datasets.\<close>

lemmas example_defs =
  lat_ds_def lat_ds_reversed_def lat_ds_centers_def lat_var_def lat_bnds_var_def
  time1_ds_def time1_var_def unit_lat_ds_def below_zero_def

lemmas fl64_defs =
  fl64_def exponent_def round_half_even_def pow2_def ilog2.simps Let_def

lemmas coord_defs =
  get_coord_indexes_def cell_edges_def ds_getitem_def get_bounds_var_def size_of_def
  edges_from_bounds_def edges_from_centers_def np_sub_def np_add_def as_numbers_def
  np_interp_def np_linspace_def interp1_def interp_segment_def search_bracket_def
  index_of_def fraction_of_def astype_int64_def query_values_def

lemma cell_edges_lat_ds: "cell_edges lat_ds ''lat'' = Inr (4, [10, 20, 30, 40, 50], False)"
  by (simp add: example_defs coord_defs fl64_defs)

lemma cell_edges_lat_ds_reversed:
  "cell_edges lat_ds_reversed ''lat'' = Inr (4, [10, 20, 30, 40, 50], True)"
  by (simp add: example_defs coord_defs fl64_defs)



lemma fl64_lat_edges: "map fl64 [10, 20, 30, 40, 50] = [10, 20, 30, 40, 50]"
  by (simp add: fl64_defs)

lemma np_linspace_4: "np_linspace 4 = [0, 1, 2, 3, 4]"
  by (simp add: np_linspace_def fl64_defs upt_rec del: upt_Suc)





lemma cell_edges_lat_ds_centers:
  "cell_edges lat_ds_centers ''lat'' = Inr (4, [10, 20, 30, 40, 50], False)"
  by (simp add: example_defs coord_defs fl64_defs)






section \<open>Axes of size 1 without bounds\<close>

text \<open>
  C8. For a coordinate variable of size 1 for which \<open>_get_bounds_var\<close> finds no usable
  bounds variable, \<open>get_coord_indexes\<close> raises the error "cannot determine cell boundaries",
  which names the coordinate variable and its size, for every query vector and both settings
  of \<open>ret_fractions\<close>.
\<close>

theorem size_one_without_bounds_raises:
  assumes "map_of (ds_coords ds) name = Some cv"
    and "size_of cv = 1"
    and "get_bounds_var ds name = Inr None"
  shows "get_coord_indexes ds name q ret_fractions = Inl (CannotDetermineCellBoundaries name 1)"
  using assms by (simp add: get_coord_indexes_def cell_edges_def ds_getitem_def)

theorem size_one_without_bounds_raises_witness:
  "get_coord_indexes time1_ds ''time'' \<lparr>arr_dtype = DDatetime, arr_vals = [1262304000]\<rparr> True
     = Inl (CannotDetermineCellBoundaries ''time'' 1)"
proof -
  have a: "map_of (ds_coords time1_ds) ''time'' = Some time1_var"
    by (simp add: example_defs)
  have b: "size_of time1_var = 1" by (simp add: example_defs size_of_def)
  have c: "get_bounds_var time1_ds ''time'' = Inr None"
    by (simp add: example_defs get_bounds_var_def ds_getitem_def)
  show ?thesis by (rule size_one_without_bounds_raises[OF a b c])
qed


section \<open>Axes stored in decreasing order\<close>

lemma interp1_lat_15: "interp1 [10, 20, 30, 40, 50] [0, 1, 2, 3, 4] (- 1) (- 1) 15 = 1 / 2"
  by (simp add: interp1_def search_bracket_def interp_segment_def fl64_defs)

lemma interp1_lat_25: "interp1 [10, 20, 30, 40, 50] [0, 1, 2, 3, 4] (- 1) (- 1) 25 = 3 / 2"
  by (simp add: interp1_def search_bracket_def interp_segment_def fl64_defs)

lemma index_fraction_half:
  "index_of 4 (1 / 2) = 0" "fraction_of 4 (1 / 2) = 1 / 2"
  "index_of 4 (3 / 2) = 1" "fraction_of 4 (3 / 2) = 1 / 2"
  by (simp_all add: index_of_def fraction_of_def astype_int64_def fl64_defs)

text \<open>
  C2. The claim is that an axis stored in decreasing order resolves every query value to the
  index that the increasing storage of the same cells gives. The code finds the axis
  reversed, resolves against the reversed edges and then reverses the result vector, so the
  result of the first query is returned at the position of the last one: for the queries 15
  and 25 the decreasing storage returns 1 and 0, the increasing storage 0 and 1.
\<close>

theorem reversed_axis_swaps_results:
  "get_coord_indexes lat_ds_reversed ''lat'' \<lparr>arr_dtype = DFloat, arr_vals = [15, 25]\<rparr> True
     = Inr (IndexesFractions [1, 0] [1 / 2, 1 / 2])
   \<and> get_coord_indexes lat_ds ''lat'' \<lparr>arr_dtype = DFloat, arr_vals = [15, 25]\<rparr> True
     = Inr (IndexesFractions [0, 1] [1 / 2, 1 / 2])"
proof -
  let ?q = "\<lparr>arr_dtype = DFloat, arr_vals = [15, 25]\<rparr>"
  have len: "length [10, 20, 30, 40, 50 :: real] = Suc 4" by simp
  have f: "fl64 15 = 15" "fl64 25 = 25" by (simp_all add: fl64_defs)
  have ix: "map (\<lambda>v. index_of 4 (interp1 [10, 20, 30, 40, 50] [0, 1, 2, 3, 4] (- 1) (- 1) (fl64 v)))
              (query_values ?q) = [0, 1]"
    by (simp add: query_values_def as_numbers_def f interp1_lat_15 interp1_lat_25
        index_fraction_half)
  have fr: "map (\<lambda>v. fraction_of 4 (interp1 [10, 20, 30, 40, 50] [0, 1, 2, 3, 4] (- 1) (- 1) (fl64 v)))
              (query_values ?q) = [1 / 2, 1 / 2]"
    by (simp add: query_values_def as_numbers_def f interp1_lat_15 interp1_lat_25
        index_fraction_half)
  have "get_coord_indexes lat_ds_reversed ''lat'' ?q True
          = Inr (IndexesFractions [1, 0] [1 / 2, 1 / 2])"
    using get_coord_indexes_eq(1)[OF cell_edges_lat_ds_reversed len, of ?q]
    unfolding fl64_lat_edges np_linspace_4 ix fr by simp
  moreover have "get_coord_indexes lat_ds ''lat'' ?q True
          = Inr (IndexesFractions [0, 1] [1 / 2, 1 / 2])"
    using get_coord_indexes_eq(1)[OF cell_edges_lat_ds len, of ?q]
    unfolding fl64_lat_edges np_linspace_4 ix fr by simp
  ultimately show ?thesis by simp
qed


section \<open>The identity of the rendering pipeline\<close>

lemma digit_char_inj:
  assumes "a < 16" "b < 16" "digit_char a = digit_char b"
  shows "a = b"
proof -
  have d: "distinct ''0123456789abcdef''" by simp
  have l: "length ''0123456789abcdef'' = 16" by simp
  from assms nth_eq_iff_index_eq[OF d, of a b] l show ?thesis
    by (simp add: digit_char_def del: nth_Cons_numeral)
qed

lemma digit_char_not_dash:
  assumes "d < 16"
  shows "digit_char d \<noteq> CHR ''-''"
proof -
  have "digit_char d \<in> set ''0123456789abcdef''"
    unfolding digit_char_def using assms by (intro nth_mem) simp
  then show ?thesis by auto
qed

lemma to_base_nonempty: "to_base b n \<noteq> []"
  by (subst to_base.simps) simp

lemma to_base16_small: "n < 16 \<Longrightarrow> to_base 16 n = [digit_char n]"
  by (subst to_base.simps) simp

lemma to_base16_large:
  "\<not> n < 16 \<Longrightarrow> to_base 16 n = to_base 16 (n div 16) @ [digit_char (n mod 16)]"
  by (subst to_base.simps) simp

lemma to_base16_no_dash: "CHR ''-'' \<notin> set (to_base 16 n)"
proof (induction n rule: less_induct)
  case (less n)
  show ?case
  proof (cases "n < 16")
    case True
    then show ?thesis using digit_char_not_dash[of n] by (simp add: to_base16_small)
  next
    case False
    then have "n div 16 < n" by simp
    from less[OF this] digit_char_not_dash[of "n mod 16"] False
    show ?thesis by (simp add: to_base16_large)
  qed
qed

text \<open>Two numbers with the same hexadecimal digits are the same number.\<close>

lemma to_base16_inj: "to_base 16 a = to_base 16 b \<Longrightarrow> a = b"
proof (induction a arbitrary: b rule: less_induct)
  case (less a)
  show ?case
  proof (cases "a < 16")
    case a: True
    show ?thesis
    proof (cases "b < 16")
      case True
      with a less.prems digit_char_inj show ?thesis by (simp add: to_base16_small)
    next
      case False
      with a less.prems to_base_nonempty[of 16 "b div 16"] show ?thesis
        by (simp add: to_base16_small to_base16_large)
    qed
  next
    case a: False
    show ?thesis
    proof (cases "b < 16")
      case True
      with a less.prems to_base_nonempty[of 16 "a div 16"] show ?thesis
        by (simp add: to_base16_small to_base16_large)
    next
      case False
      with a less.prems have e: "to_base 16 (a div 16) = to_base 16 (b div 16)"
        and d: "digit_char (a mod 16) = digit_char (b mod 16)"
        by (simp_all add: to_base16_large)
      from a have "a div 16 < a" by simp
      from less.IH[OF this e] have q: "a div 16 = b div 16" .
      from digit_char_inj[OF _ _ d] have r: "a mod 16 = b mod 16" by simp
      from q r show ?thesis by (metis div_mult_mod_eq)
    qed
  qed
qed

lemma py_hex_inj: "py_hex a = py_hex b \<Longrightarrow> a = b"
  by (simp add: py_hex_def to_base16_inj)

lemma py_hex_no_dash: "CHR ''-'' \<notin> set (py_hex n)"
  using to_base16_no_dash[of n] by (simp add: py_hex_def)

lemma image_id_split:
  "\<exists>rest. image_id fstr i z var_name cmap_cbar cmap_vmin cmap_vmax labels
          = py_hex i @ CHR ''-'' # rest"
  by (simp add: image_id_def Let_def)

lemma prefix_before_dash:
  assumes "a @ CHR ''-'' # r = b @ CHR ''-'' # r'"
    and "CHR ''-'' \<notin> set a" and "CHR ''-'' \<notin> set b"
  shows "a = b"
proof -
  have "takeWhile (\<lambda>c. c \<noteq> CHR ''-'') (a @ CHR ''-'' # r) = a"
    using assms(2) by (auto simp: takeWhile_tail)
  moreover have "takeWhile (\<lambda>c. c \<noteq> CHR ''-'') (b @ CHR ''-'' # r') = b"
    using assms(3) by (auto simp: takeWhile_tail)
  ultimately show ?thesis using assms(1) by simp
qed

lemma image_id_inj_id:
  assumes "image_id fstr i z var_name cmap_cbar cmap_vmin cmap_vmax labels
         = image_id fstr' j z' var_name' cmap_cbar' cmap_vmin' cmap_vmax' labels'"
  shows "i = j"
proof -
  from image_id_split obtain r where
    a: "image_id fstr i z var_name cmap_cbar cmap_vmin cmap_vmax labels = py_hex i @ CHR ''-'' # r"
    by blast
  from image_id_split obtain r' where
    b: "image_id fstr' j z' var_name' cmap_cbar' cmap_vmin' cmap_vmax' labels'
        = py_hex j @ CHR ''-'' # r'"
    by blast
  from assms a b have "py_hex i @ CHR ''-'' # r = py_hex j @ CHR ''-'' # r'" by simp
  from prefix_before_dash[OF this py_hex_no_dash py_hex_no_dash] show ?thesis
    by (rule py_hex_inj)
qed

lemma cache_lookup_store_other:
  "k \<noteq> k' \<Longrightarrow> cache_lookup (cache_store c k img) k' = cache_lookup c k'"
  by (cases c) (simp_all add: cache_lookup_def cache_store_def update_conv')

text \<open>The cache that a call leaves is the cache it got, or that cache with its own key set.\<close>

lemma get_ml_dataset_tile_cache:
  assumes "get_ml_dataset_tile fstr a var_name x y z labels labels_are_indices
             cmap_cbar cmap_vmin cmap_vmax c tile_comp_mode = Inr (t, c')"
  shows "c' = c \<or> (\<exists>img. c' = cache_store c
                      (image_id fstr (ml_id a) z var_name cmap_cbar cmap_vmin cmap_vmax
                         (case labels of None \<Rightarrow> [] | Some l \<Rightarrow> l)) img)"
  using assms unfolding get_ml_dataset_tile_def Let_def
  by (auto split: sum.splits option.splits if_splits)

lemmas tile_example_defs = example_ml_dataset_def chl_var_def sst_var_def


section \<open>The normalization range\<close>

text \<open>
  A bound given as a number is used as it is, and a bound given as not-a-number is taken
  from the plane.
\<close>

lemma norm_bound_number:
  "norm_bound reduce array (PyFloat v) = Inr (Val v)"
  "norm_bound reduce array (PyInt i) = Inr (Val (of_int i))"
  by (simp_all add: norm_bound_def)

lemma norm_bound_nan: "norm_bound reduce array PyNaN = reduce array"
  by (simp add: norm_bound_def)

text \<open>
  C5. The claim is that a bound that is not supplied, also by leaving the parameter at its
  default, is derived from the plane. The defaults of \<open>cmap_vmin\<close> and \<open>cmap_vmax\<close> are
  \<open>None\<close>, and \<open>np.isnan(None)\<close> raises: a call that leaves the bounds at their defaults
  fails with a \<open>TypeError\<close> instead of rendering with the range of the plane, here 1 to 3.
\<close>

theorem default_bounds_raise:
  "get_ml_dataset_tile fstr example_ml_dataset ''chl'' 0 0 0 None False PyNone PyNone PyNone
       None False
     = Inl (TypeError ''ufunc isnan not supported for the input types'')
   \<and> normalization_range (tv_values chl_var) PyNaN PyNaN = Inr (Val 1, Val 3)"
  by (simp add: get_ml_dataset_tile_def tile_example_defs Let_def cache_truthy_def
        select_plane_def normalization_range_def norm_bound_def array_min_def array_max_def
        finite_cells_def)


section \<open>Gathering the values of in-range rows\<close>

lemma sequence_map_Inr:
  "(\<And>x. x \<in> set xs \<Longrightarrow> g x = Inr (f x)) \<Longrightarrow> sequence (map g xs) = Inr (map f xs)"
  by (induction xs) simp_all

lemma nd_offset_flat_index:
  assumes "length row = length shp" and "\<forall>k < length shp. row ! k < shp ! k"
  shows "nd_offset shp (map int row) = Inr (flat_index shp row)"
  using assms
proof (induction row shp rule: list_induct2)
  case Nil
  then show ?case by simp
next
  case (Cons i row n shp)
  from Cons.prems have i: "i < n" by auto
  from Cons.prems have "\<forall>k < length shp. row ! k < shp ! k" by auto
  with Cons.IH have "nd_offset shp (map int row) = Inr (flat_index shp row)" by simp
  with i show ?case by simp
qed

lemma nd_getitem_stored_value:
  assumes "length row = length (dv_shape var)"
    and "\<forall>k < length (dv_shape var). row ! k < dv_shape var ! k"
  shows "nd_getitem var (map int row) = Inr (stored_value var row)"
  using nd_offset_flat_index[OF assms] assms(1)
  by (simp add: nd_getitem_def stored_value_def)

lemma minus_one_notin_nats: "- 1 \<notin> set (map int row)"
  by auto

lemma row_values_in_range:
  assumes "\<And>var. var \<in> set vars \<Longrightarrow> length row = length (dv_shape var)
              \<and> (\<forall>k < length (dv_shape var). row ! k < dv_shape var ! k)"
  shows "row_values vars (map int row) = Inr (map (\<lambda>var. stored_value var row) vars)"
proof -
  have "sequence (map (\<lambda>var. nd_getitem var (map int row)) vars)
        = Inr (map (\<lambda>var. stored_value var row) vars)"
    by (rule sequence_map_Inr) (simp add: assms nd_getitem_stored_value)
  then show ?thesis
    unfolding row_values_def using minus_one_notin_nats[of row] by simp
qed

lemma np_stack_columns:
  assumes m: "0 < m" and rows: "\<forall>row \<in> set rows. length row = m"
  shows "np_stack (map (\<lambda>k. map (\<lambda>row. int (row ! k)) rows) [0 ..< m]) = Inr (map (map int) rows)"
proof -
  define cols where "cols = map (\<lambda>k. map (\<lambda>row. int (row ! k)) rows) [0 ..< m]"
  have all: "\<forall>b \<in> set cols. length b = length rows"
    by (auto simp: cols_def)
  have lcols: "length cols = m" by (simp add: cols_def)
  with m obtain c cs where ccs: "cols = c # cs" by (cases cols) auto
  have tr: "map (\<lambda>i. map (\<lambda>col. col ! i) cols) [0 ..< length rows] = map (map int) rows"
  proof (rule nth_equalityI)
    show "length (map (\<lambda>i. map (\<lambda>col. col ! i) cols) [0 ..< length rows])
          = length (map (map int) rows)"
      by simp
  next
    fix i assume "i < length (map (\<lambda>i. map (\<lambda>col. col ! i) cols) [0 ..< length rows])"
    then have i: "i < length rows" by simp
    then have l: "length (rows ! i) = m" using rows by simp
    have "map (\<lambda>col. col ! i) cols = map (\<lambda>k. int (rows ! i ! k)) [0 ..< m]"
      using i by (simp add: cols_def o_def)
    also have "\<dots> = map int (map (\<lambda>k. rows ! i ! k) [0 ..< m])" by (simp add: o_def)
    also have "map (\<lambda>k. rows ! i ! k) [0 ..< m] = rows ! i"
      using l map_nth[of "rows ! i"] by simp
    finally show "map (\<lambda>i. map (\<lambda>col. col ! i) cols) [0 ..< length rows] ! i
                  = map (map int) rows ! i"
      using i by simp
  qed
  have "np_stack cols = Inr (map (\<lambda>i. map (\<lambda>col. col ! i) cols) [0 ..< length rows])"
    using all unfolding np_stack_def ccs by (simp add: list_all_iff del: upt_Suc)
  with tr show ?thesis by (simp add: cols_def)
qed

lemma columns_of_rows:
  "map (\<lambda>j. map (\<lambda>row. row ! j) (map (\<lambda>row. map (\<lambda>var. f var row) vars) rows)) [0 ..< length vars]
   = map (\<lambda>var. map (f var) rows) vars"
  by (rule nth_equalityI) (simp_all add: o_def)

lemma zip_fst_map_snd:
  "zip (map fst xs) (map (\<lambda>v. g v) (map snd xs)) = map (\<lambda>(n, v). (n, g v)) xs"
  by (induction xs) auto

lemma get_cube_values_in_range:
  assumes dv: "ds_data_vars cube = (n0, v0) # rest"
    and dims: "dims = dv_dims v0" "dims \<noteq> []"
    and shapes: "\<forall>(n, v) \<in> set (ds_data_vars cube). dv_shape v = shp"
    and len: "length shp = length dims"
    and rows: "\<forall>row \<in> set rows. length row = length dims \<and> (\<forall>k < length dims. row ! k < shp ! k)"
    and idx: "\<forall>k < length dims. map_of indexes (dims ! k) = Some (map (\<lambda>row. int (row ! k)) rows)"
  shows "get_cube_values cube indexes False True
         = Inr (map (\<lambda>(n, v). (n, map (stored_value v) rows)) (ds_data_vars cube))"
proof -
  let ?vars = "map snd (ds_data_vars cube)"
  have gd: "get_cube_dims cube = Some dims"
    using dv dims by (simp add: get_cube_dims_def)
  have "map (\<lambda>dim_name. case map_of indexes dim_name of
                           None \<Rightarrow> Inl (MissingDimensionInIndexes dim_name)
                         | Some col \<Rightarrow> Inr col) dims
        = map (\<lambda>k. Inr (map (\<lambda>row. int (row ! k)) rows)) [0 ..< length dims]"
    by (rule nth_equalityI) (simp_all add: idx)
  then have s1: "sequence (map (\<lambda>dim_name. case map_of indexes dim_name of
                           None \<Rightarrow> Inl (MissingDimensionInIndexes dim_name)
                         | Some col \<Rightarrow> Inr col) dims)
        = Inr (map (\<lambda>k. map (\<lambda>row. int (row ! k)) rows) [0 ..< length dims])"
    using sequence_map_Inr[of "[0 ..< length dims]" "\<lambda>k. Inr (map (\<lambda>row. int (row ! k)) rows)"
            "\<lambda>k. map (\<lambda>row. int (row ! k)) rows"]
    by simp
  have s2: "np_stack (map (\<lambda>k. map (\<lambda>row. int (row ! k)) rows) [0 ..< length dims])
            = Inr (map (map int) rows)"
    using np_stack_columns[of "length dims" rows] dims(2) rows by simp
  have "\<And>row. row \<in> set rows \<Longrightarrow>
          row_values ?vars (map int row) = Inr (map (\<lambda>var. stored_value var row) ?vars)"
  proof (rule row_values_in_range)
    fix row var assume r: "row \<in> set rows" and v: "var \<in> set ?vars"
    from v shapes have "dv_shape var = shp" by auto
    with r rows len show "length row = length (dv_shape var)
              \<and> (\<forall>k < length (dv_shape var). row ! k < dv_shape var ! k)" by simp
  qed
  then have s3: "sequence (map (row_values ?vars) (map (map int) rows))
            = Inr (map (\<lambda>row. map (\<lambda>var. stored_value var row) ?vars) rows)"
    using sequence_map_Inr[of rows "\<lambda>row. row_values ?vars (map int row)"
            "\<lambda>row. map (\<lambda>var. stored_value var row) ?vars"]
    by (simp add: o_def)
  have s4: "map (\<lambda>j. map (\<lambda>row. row ! j) (map (\<lambda>row. map (\<lambda>var. stored_value var row) ?vars) rows))
               [0 ..< length (ds_data_vars cube)]
            = map (\<lambda>var. map (stored_value var) rows) ?vars"
    using columns_of_rows[of stored_value ?vars rows] by simp
  show ?thesis
    unfolding get_cube_values_def
    by (simp add: gd s1 s2 s3 s4 Let_def zip_fst_map_snd del: upt_Suc map_map)
qed


section \<open>Rows with an unresolved index\<close>

lemmas cube_example_defs =
  example_cube_def single_step_cube_def cube_time_var_def cube_time_bnds_var_def
  cube_lat_var_def cube_lon_var_def chl_data_var_def flags_data_var_def

lemmas values_defs =
  get_cube_values_def get_cube_dims_def np_stack_def row_values_def nd_getitem_def
  setitem_nan_def pd_concat_def

text \<open>
  C4. The claim is that a row with the index \<open>-1\<close> holds not-a-number for every data
  variable and that extraction never raises. The output array of a variable has the
  element type of the variable, and numpy cannot store not-a-number into an integer array:
  for a cube with an integer variable the first such row raises \<open>ValueError\<close>. With the
  float variable alone the row holds not-a-number and the other row the stored value.
\<close>

theorem nan_into_integer_variable_raises:
  "get_cube_values example_cube [(''time'', [0, 1]), (''lat'', [- 1, 0]), (''lon'', [0, 1])]
       False True
     = Inl (NumpyValueError ''cannot convert float NaN to integer'')
   \<and> get_cube_values (example_cube\<lparr>ds_data_vars := [(''chl'', chl_data_var)]\<rparr>)
       [(''time'', [0, 1]), (''lat'', [- 1, 0]), (''lon'', [0, 1])] False True
     = Inr [(''chl'', [NaN, Val 5])]"
  by (simp add: values_defs cube_example_defs upt_rec Let_def)


section \<open>Including the indexes\<close>

text \<open>
  C6. The claim is that with \<open>include_indexes=True\<close> the index columns are appended to
  the value columns. The source calls \<open>pd.concat(values, indexes)\<close>, which passes the
  value frame where pandas expects the sequence of frames, and pandas raises \<open>TypeError\<close>:
  every call with \<open>include_indexes=True\<close> that reaches this line fails. Without the flag
  the same call returns the value table.
\<close>

theorem include_indexes_raises:
  "get_cube_values example_cube [(''time'', [0, 1]), (''lat'', [0, 1]), (''lon'', [0, 1])]
       True True
     = Inl (TypeError ''first argument must be an iterable of pandas objects'')
   \<and> get_cube_values example_cube [(''time'', [0, 1]), (''lat'', [0, 1]), (''lon'', [0, 1])]
       False True
     = Inr [(''chl'', [Val 0, Val 7]), (''flags'', [Val 10, Val 17])]"
  by (simp add: values_defs cube_example_defs upt_rec Let_def)


section \<open>The cache of rendering pipelines\<close>

lemma cache_lookup_store_same:
  "cache_truthy c \<Longrightarrow> cache_lookup (cache_store c k img) k = Some img"
  by (cases c) (simp_all add: cache_truthy_def cache_lookup_def cache_store_def update_conv')

text \<open>A call that finds the pipeline in the cache, and a call that builds it.\<close>

lemma get_ml_dataset_tile_hit:
  assumes "ml_get_dataset a (ml_num_levels a - 1 - z) = Inr dataset"
    and "map_of dataset var_name = Some var"
    and "cache_truthy c"
    and "cache_lookup c (image_id fstr (ml_id a) z var_name cmap_cbar cmap_vmin cmap_vmax
                           (case labels of None \<Rightarrow> [] | Some l \<Rightarrow> l)) = Some img"
  shows "get_ml_dataset_tile fstr a var_name x y z labels labels_are_indices
           cmap_cbar cmap_vmin cmap_vmax c tile_comp_mode = Inr (Tile img x y, c)"
  using assms by (simp add: get_ml_dataset_tile_def Let_def)

lemma get_ml_dataset_tile_miss:
  assumes "ml_get_dataset a (ml_num_levels a - 1 - z) = Inr dataset"
    and "map_of dataset var_name = Some var"
    and "\<not> (cache_truthy c \<and>
            cache_lookup c (image_id fstr (ml_id a) z var_name cmap_cbar cmap_vmin cmap_vmax
                              (case labels of None \<Rightarrow> [] | Some l \<Rightarrow> l)) \<noteq> None)"
  shows "get_ml_dataset_tile fstr a var_name x y z labels labels_are_indices
           cmap_cbar cmap_vmin cmap_vmax c tile_comp_mode =
         (case select_plane var_name var (case labels of None \<Rightarrow> [] | Some l \<Rightarrow> l)
                 labels_are_indices of
            Inl e \<Rightarrow> Inl e
          | Inr array \<Rightarrow>
              (case normalization_range array cmap_vmin cmap_vmax of
                 Inl e \<Rightarrow> Inl e
               | Inr value_range \<Rightarrow>
                   Inr (Tile \<lparr>ti_image_id = ''rgb-'' @ image_id fstr (ml_id a) z var_name cmap_cbar
                                               cmap_vmin cmap_vmax
                                               (case labels of None \<Rightarrow> [] | Some l \<Rightarrow> l),
                              ti_array = array, ti_value_range = value_range,
                              ti_cmap_name = cmap_cbar,
                              ti_tile_size = tg_tile_size (ml_tile_grid a),
                              ti_flip_y = tg_inv_y (ml_tile_grid a),
                              ti_no_data_value = tv_fill_value var,
                              ti_valid_range = valid_range_of var,
                              ti_comp_mode = tile_comp_mode\<rparr> x y,
                        if cache_truthy c
                        then cache_store c (image_id fstr (ml_id a) z var_name cmap_cbar
                                              cmap_vmin cmap_vmax
                                              (case labels of None \<Rightarrow> [] | Some l \<Rightarrow> l))
                               \<lparr>ti_image_id = ''rgb-'' @ image_id fstr (ml_id a) z var_name cmap_cbar
                                               cmap_vmin cmap_vmax
                                               (case labels of None \<Rightarrow> [] | Some l \<Rightarrow> l),
                              ti_array = array, ti_value_range = value_range,
                              ti_cmap_name = cmap_cbar,
                              ti_tile_size = tg_tile_size (ml_tile_grid a),
                              ti_flip_y = tg_inv_y (ml_tile_grid a),
                              ti_no_data_value = tv_fill_value var,
                              ti_valid_range = valid_range_of var,
                              ti_comp_mode = tile_comp_mode\<rparr>
                        else c)))"
  using assms unfolding get_ml_dataset_tile_def Let_def
  by (auto split: sum.splits)

lemmas cache_example_defs =
  recycled_ml_dataset_def recycled_chl_var_def warm_cache_def other_image_def

lemma image_id_chl:
  "image_id fstr 26 0 ''chl'' PyNone PyNaN PyNaN [] = ''0x1a-0-chl-None-nan-nan''"
  by (simp add: image_id_def py_hex_def str_int_def digit_char_def)

lemma image_id_chl_27:
  "image_id fstr 27 0 ''chl'' PyNone PyNaN PyNaN [] = ''0x1b-0-chl-None-nan-nan''"
  by (simp add: image_id_def py_hex_def str_int_def digit_char_def)

lemma normalization_range_chl:
  "normalization_range [Val 1, Val 3, NaN, Val 2] PyNaN PyNaN = Inr (Val 1, Val 3)"
  by (simp add: normalization_range_def norm_bound_def array_min_def array_max_def
        finite_cells_def)

lemma first_call_builds:
  "get_ml_dataset_tile fstr example_ml_dataset ''chl'' 0 0 0 None False PyNone PyNaN PyNaN
       warm_cache False
     = Inr (Tile \<lparr>ti_image_id = ''rgb-0x1a-0-chl-None-nan-nan'',
                  ti_array = [Val 1, Val 3, NaN, Val 2], ti_value_range = (Val 1, Val 3),
                  ti_cmap_name = PyNone, ti_tile_size = (2, 2), ti_flip_y = False,
                  ti_no_data_value = None, ti_valid_range = None, ti_comp_mode = False\<rparr> 0 0,
            Some [(''0x2b-0-tsm-None-nan-nan'', other_image),
                  (''0x1a-0-chl-None-nan-nan'',
                   \<lparr>ti_image_id = ''rgb-0x1a-0-chl-None-nan-nan'',
                  ti_array = [Val 1, Val 3, NaN, Val 2], ti_value_range = (Val 1, Val 3),
                  ti_cmap_name = PyNone, ti_tile_size = (2, 2), ti_flip_y = False,
                  ti_no_data_value = None, ti_valid_range = None, ti_comp_mode = False\<rparr>)])"
  by (simp add: get_ml_dataset_tile_def tile_example_defs warm_cache_def image_id_chl
      cache_truthy_def cache_lookup_def cache_store_def select_plane_def
      normalization_range_chl valid_range_of_def Let_def)

text \<open>
  C10. The cache key \<open>image_id\<close> that \<open>get_ml_dataset_tile\<close> builds begins with
  \<open>hex(id(ml_dataset))\<close>, followed by a dash. For a call that reaches the cache (the level
  dataset and the variable exist):

  \<^item> if the cache is not empty and holds an image under the key, the call returns the tile of
    that image and leaves the cache as it is;
  \<^item> otherwise, if the plane is selected and the normalization range computed, the call
    returns the tile of a new image with the identity \<open>rgb-\<close> and the key, and a cache that is
    not empty holds this image under the key afterwards;
  \<^item> every key built for an object with another \<open>id\<close> differs from the key, whatever the
    other arguments are, and the call leaves the cache unchanged at every such key.

  So a hit needs the same \<open>id\<close>, which only objects that are alive at the same time do not
  share.
\<close>

theorem pipeline_cache_keyed_by_object_id:
  assumes ds: "ml_get_dataset a (ml_num_levels a - 1 - z) = Inr dataset"
    and var: "map_of dataset var_name = Some var"
    and key: "key = image_id fstr (ml_id a) z var_name cmap_cbar cmap_vmin cmap_vmax
                      (case labels of None \<Rightarrow> [] | Some l \<Rightarrow> l)"
  shows "(\<exists>rest. key = py_hex (ml_id a) @ CHR ''-'' # rest)
     \<and> (\<forall>img. cache_truthy c \<and> cache_lookup c key = Some img \<longrightarrow>
           get_ml_dataset_tile fstr a var_name x y z labels labels_are_indices
             cmap_cbar cmap_vmin cmap_vmax c tile_comp_mode = Inr (Tile img x y, c))
     \<and> (\<not> (cache_truthy c \<and> cache_lookup c key \<noteq> None) \<longrightarrow>
          (\<forall>array value_range.
             select_plane var_name var (case labels of None \<Rightarrow> [] | Some l \<Rightarrow> l)
               labels_are_indices = Inr array
             \<and> normalization_range array cmap_vmin cmap_vmax = Inr value_range \<longrightarrow>
             (\<exists>img. get_ml_dataset_tile fstr a var_name x y z labels labels_are_indices
                       cmap_cbar cmap_vmin cmap_vmax c tile_comp_mode
                     = Inr (Tile img x y, if cache_truthy c then cache_store c key img else c)
                  \<and> ti_image_id img = ''rgb-'' @ key \<and> ti_array img = array
                  \<and> (cache_truthy c \<longrightarrow> cache_lookup (cache_store c key img) key = Some img))))
     \<and> (\<forall>(b::ml_dataset) fstr' z' var_name' cmap_cbar' cmap_vmin' cmap_vmax' labels'.
          ml_id b \<noteq> ml_id a \<longrightarrow>
            image_id fstr' (ml_id b) z' var_name' cmap_cbar' cmap_vmin' cmap_vmax' labels' \<noteq> key
          \<and> (\<forall>t c'. get_ml_dataset_tile fstr a var_name x y z labels labels_are_indices
                       cmap_cbar cmap_vmin cmap_vmax c tile_comp_mode = Inr (t, c') \<longrightarrow>
                cache_lookup c'
                  (image_id fstr' (ml_id b) z' var_name' cmap_cbar' cmap_vmin' cmap_vmax' labels')
                = cache_lookup c
                  (image_id fstr' (ml_id b) z' var_name' cmap_cbar' cmap_vmin' cmap_vmax' labels')))"
proof (intro conjI)
  show "\<exists>rest. key = py_hex (ml_id a) @ CHR ''-'' # rest"
    unfolding key by (rule image_id_split)
next
  show "\<forall>img. cache_truthy c \<and> cache_lookup c key = Some img \<longrightarrow>
           get_ml_dataset_tile fstr a var_name x y z labels labels_are_indices
             cmap_cbar cmap_vmin cmap_vmax c tile_comp_mode = Inr (Tile img x y, c)"
    unfolding key using get_ml_dataset_tile_hit[OF ds var] by blast
next
  show "\<not> (cache_truthy c \<and> cache_lookup c key \<noteq> None) \<longrightarrow>
          (\<forall>array value_range.
             select_plane var_name var (case labels of None \<Rightarrow> [] | Some l \<Rightarrow> l)
               labels_are_indices = Inr array
             \<and> normalization_range array cmap_vmin cmap_vmax = Inr value_range \<longrightarrow>
             (\<exists>img. get_ml_dataset_tile fstr a var_name x y z labels labels_are_indices
                       cmap_cbar cmap_vmin cmap_vmax c tile_comp_mode
                     = Inr (Tile img x y, if cache_truthy c then cache_store c key img else c)
                  \<and> ti_image_id img = ''rgb-'' @ key \<and> ti_array img = array
                  \<and> (cache_truthy c \<longrightarrow> cache_lookup (cache_store c key img) key = Some img)))"
  proof (intro impI allI)
    fix array value_range
    assume miss: "\<not> (cache_truthy c \<and> cache_lookup c key \<noteq> None)"
      and ok: "select_plane var_name var (case labels of None \<Rightarrow> [] | Some l \<Rightarrow> l)
               labels_are_indices = Inr array
             \<and> normalization_range array cmap_vmin cmap_vmax = Inr value_range"
    from get_ml_dataset_tile_miss[OF ds var miss[unfolded key], of x y labels_are_indices
           tile_comp_mode] ok
    show "\<exists>img. get_ml_dataset_tile fstr a var_name x y z labels labels_are_indices
                       cmap_cbar cmap_vmin cmap_vmax c tile_comp_mode
                     = Inr (Tile img x y, if cache_truthy c then cache_store c key img else c)
                  \<and> ti_image_id img = ''rgb-'' @ key \<and> ti_array img = array
                  \<and> (cache_truthy c \<longrightarrow> cache_lookup (cache_store c key img) key = Some img)"
      by (simp add: key cache_lookup_store_same)
  qed
next
  show "\<forall>(b::ml_dataset) fstr' z' var_name' cmap_cbar' cmap_vmin' cmap_vmax' labels'.
          ml_id b \<noteq> ml_id a \<longrightarrow>
            image_id fstr' (ml_id b) z' var_name' cmap_cbar' cmap_vmin' cmap_vmax' labels' \<noteq> key
          \<and> (\<forall>t c'. get_ml_dataset_tile fstr a var_name x y z labels labels_are_indices
                       cmap_cbar cmap_vmin cmap_vmax c tile_comp_mode = Inr (t, c') \<longrightarrow>
                cache_lookup c'
                  (image_id fstr' (ml_id b) z' var_name' cmap_cbar' cmap_vmin' cmap_vmax' labels')
                = cache_lookup c
                  (image_id fstr' (ml_id b) z' var_name' cmap_cbar' cmap_vmin' cmap_vmax' labels'))"
  proof (intro allI impI conjI)
    fix b :: ml_dataset and fstr' z' var_name' cmap_cbar' cmap_vmin' cmap_vmax' labels'
    assume ne: "ml_id b \<noteq> ml_id a"
    let ?kb = "image_id fstr' (ml_id b) z' var_name' cmap_cbar' cmap_vmin' cmap_vmax' labels'"
    show kne: "?kb \<noteq> key" unfolding key using ne image_id_inj_id by blast
    fix t c'
    assume r: "get_ml_dataset_tile fstr a var_name x y z labels labels_are_indices
                       cmap_cbar cmap_vmin cmap_vmax c tile_comp_mode = Inr (t, c')"
    from get_ml_dataset_tile_cache[OF r] show "cache_lookup c' ?kb = cache_lookup c ?kb"
    proof
      assume "c' = c" then show ?thesis by simp
    next
      assume "\<exists>img. c' = cache_store c
                      (image_id fstr (ml_id a) z var_name cmap_cbar cmap_vmin cmap_vmax
                         (case labels of None \<Rightarrow> [] | Some l \<Rightarrow> l)) img"
      then obtain img where c': "c' = cache_store c key img" unfolding key by blast
      from kne have "key \<noteq> ?kb" by blast
      with c' show ?thesis by (simp add: cache_lookup_store_other)
    qed
  qed
qed

text \<open>
  The variable \<open>chl\<close> of the example dataset with the \<open>id\<close> 26 and a cache that holds
  another image: the first call builds the image and stores it under
  \<open>0x1a-0-chl-None-nan-nan\<close>, the second call returns the stored image, and the key of an
  object with the \<open>id\<close> 27 differs.
\<close>

theorem pipeline_cache_keyed_by_object_id_witness:
  "\<exists>img. get_ml_dataset_tile (\<lambda>r. ''0.5'') example_ml_dataset ''chl'' 0 0 0 None False
            PyNone PyNaN PyNaN warm_cache False
          = Inr (Tile img 0 0, cache_store warm_cache ''0x1a-0-chl-None-nan-nan'' img)
       \<and> ti_image_id img = ''rgb-0x1a-0-chl-None-nan-nan''
       \<and> ti_array img = [Val 1, Val 3, NaN, Val 2]
       \<and> get_ml_dataset_tile (\<lambda>r. ''0.5'') example_ml_dataset ''chl'' 1 1 0 None False
            PyNone PyNaN PyNaN (cache_store warm_cache ''0x1a-0-chl-None-nan-nan'' img) False
          = Inr (Tile img 1 1, cache_store warm_cache ''0x1a-0-chl-None-nan-nan'' img)
       \<and> image_id (\<lambda>r. ''0.5'') (ml_id (example_ml_dataset\<lparr>ml_id := 27\<rparr>)) 0 ''chl''
            PyNone PyNaN PyNaN [] \<noteq> ''0x1a-0-chl-None-nan-nan''"
proof -
  let ?F = "\<lambda>r::real. ''0.5''"
  let ?key = "''0x1a-0-chl-None-nan-nan''"
  have ds: "ml_get_dataset example_ml_dataset (ml_num_levels example_ml_dataset - 1 - 0)
              = Inr [(''chl'', chl_var), (''sst'', sst_var)]"
    by (simp add: example_ml_dataset_def)
  have var: "map_of [(''chl'', chl_var), (''sst'', sst_var)] ''chl'' = Some chl_var" by simp
  have key: "?key = image_id ?F (ml_id example_ml_dataset) 0 ''chl'' PyNone PyNaN PyNaN
                      (case None of None \<Rightarrow> [] | Some l \<Rightarrow> l)"
    by (simp add: example_ml_dataset_def image_id_chl)
  note main = pipeline_cache_keyed_by_object_id[OF ds var key]
  have miss: "\<not> (cache_truthy warm_cache \<and> cache_lookup warm_cache ?key \<noteq> None)"
    by (simp add: warm_cache_def cache_lookup_def)
  have warm: "cache_truthy warm_cache" by (simp add: warm_cache_def cache_truthy_def)
  have sel: "select_plane ''chl'' chl_var (case None of None \<Rightarrow> [] | Some l \<Rightarrow> l) False
               = Inr [Val 1, Val 3, NaN, Val 2]
             \<and> normalization_range [Val 1, Val 3, NaN, Val 2] PyNaN PyNaN = Inr (Val 1, Val 3)"
    by (simp add: select_plane_def chl_var_def normalization_range_chl)
  from main[of warm_cache 0 0 False False, THEN conjunct2, THEN conjunct2, THEN conjunct1,
            THEN mp, OF miss, THEN spec, THEN spec, THEN mp, OF sel] warm
  obtain img where built: "get_ml_dataset_tile ?F example_ml_dataset ''chl'' 0 0 0 None False
            PyNone PyNaN PyNaN warm_cache False
          = Inr (Tile img 0 0, cache_store warm_cache ?key img)"
    and id: "ti_image_id img = ''rgb-'' @ ?key" and arr: "ti_array img = [Val 1, Val 3, NaN, Val 2]"
    and stored: "cache_lookup (cache_store warm_cache ?key img) ?key = Some img"
    by auto
  have warm': "cache_truthy (cache_store warm_cache ?key img)"
    by (simp add: warm_cache_def cache_truthy_def cache_store_def)
  from main[of "cache_store warm_cache ?key img" 1 1 False False, THEN conjunct2, THEN conjunct1,
            THEN spec, of img] warm' stored
  have hit: "get_ml_dataset_tile ?F example_ml_dataset ''chl'' 1 1 0 None False
            PyNone PyNaN PyNaN (cache_store warm_cache ?key img) False
          = Inr (Tile img 1 1, cache_store warm_cache ?key img)"
    by blast
  have ne: "ml_id (example_ml_dataset\<lparr>ml_id := 27\<rparr>) \<noteq> ml_id example_ml_dataset"
    by (simp add: example_ml_dataset_def)
  from main[of warm_cache 0 0 False False, THEN conjunct2, THEN conjunct2, THEN conjunct2,
            THEN spec, of "example_ml_dataset\<lparr>ml_id := 27\<rparr>", THEN spec, of ?F, THEN spec, of 0,
            THEN spec, of "''chl''", THEN spec, of PyNone, THEN spec, of PyNaN,
            THEN spec, of PyNaN, THEN spec, of "[]", THEN mp, OF ne, THEN conjunct1]
  have other: "image_id ?F (ml_id (example_ml_dataset\<lparr>ml_id := 27\<rparr>)) 0 ''chl''
            PyNone PyNaN PyNaN [] \<noteq> ?key" .
  from built id arr hit other show ?thesis by auto
qed

text \<open>
  Two distinct dataset objects do share an entry when the second is created at the address
  of the first one after its release: the call for the second object finds the image of the
  first under its key and returns a tile of the first object's plane, not of its own values.
\<close>

theorem recycled_id_hits_stale_pipeline:
  "ml_id recycled_ml_dataset = ml_id example_ml_dataset
   \<and> ml_get_dataset recycled_ml_dataset 0 = Inr [(''chl'', recycled_chl_var)]
   \<and> tv_values recycled_chl_var = [Val 5, Val 6, Val 7, Val 8]
   \<and> (\<exists>img c. get_ml_dataset_tile (\<lambda>r. ''0.5'') example_ml_dataset ''chl'' 0 0 0 None False
                   PyNone PyNaN PyNaN warm_cache False = Inr (Tile img 0 0, c)
              \<and> get_ml_dataset_tile (\<lambda>r. ''0.5'') recycled_ml_dataset ''chl'' 0 0 0 None False
                   PyNone PyNaN PyNaN c False = Inr (Tile img 0 0, c)
              \<and> ti_array img = [Val 1, Val 3, NaN, Val 2])"
proof -
  have a: "ml_id recycled_ml_dataset = ml_id example_ml_dataset"
    by (simp add: recycled_ml_dataset_def example_ml_dataset_def)
  have b: "ml_get_dataset recycled_ml_dataset 0 = Inr [(''chl'', recycled_chl_var)]"
    by (simp add: recycled_ml_dataset_def)
  have c: "tv_values recycled_chl_var = [Val 5, Val 6, Val 7, Val 8]"
    by (simp add: recycled_chl_var_def)
  let ?img = "\<lparr>ti_image_id = ''rgb-0x1a-0-chl-None-nan-nan'',
                  ti_array = [Val 1, Val 3, NaN, Val 2], ti_value_range = (Val 1, Val 3),
                  ti_cmap_name = PyNone, ti_tile_size = (2, 2), ti_flip_y = False,
                  ti_no_data_value = None, ti_valid_range = None, ti_comp_mode = False\<rparr>"
  let ?c = "Some [(''0x2b-0-tsm-None-nan-nan'', other_image), (''0x1a-0-chl-None-nan-nan'', ?img)]"
  have d: "get_ml_dataset_tile (\<lambda>r. ''0.5'') recycled_ml_dataset ''chl'' 0 0 0 None False
                   PyNone PyNaN PyNaN ?c False = Inr (Tile ?img 0 0, ?c)"
    by (simp add: get_ml_dataset_tile_def recycled_ml_dataset_def image_id_chl
        cache_truthy_def cache_lookup_def Let_def)
  from a b c d first_call_builds[of "\<lambda>r. ''0.5''"] show ?thesis by simp
qed

end
